theory Spec2Isabelle
  imports Complex_Main "HOL-Library.Signed_Division"
begin

section \<open>Library functions used by the controller\<close>

text \<open>
  The controller is Go. Its strings are byte sequences (\<^typ>\<open>string\<close>), its
  \<^verbatim>\<open>int\<close>, \<^verbatim>\<open>int32\<close> and \<^verbatim>\<open>int64\<close> values are modelled as \<^typ>\<open>int\<close>
  (the port numbers are constants, and the one division is on a value whose range is
  stated where it matters). The functions of the Go standard library and of the
  Kubernetes libraries that the controller calls are written out here as far as the
  controller depends on them.
\<close>

subsection \<open>\<^verbatim>\<open>fmt.Sprintf("%d", n)\<close>\<close>

definition digit :: "nat \<Rightarrow> char" where
  "digit n = ''0123456789'' ! n"

fun showNat :: "nat \<Rightarrow> string" where
  "showNat n = (if n < 10 then [digit n] else showNat (n div 10) @ [digit (n mod 10)])"

declare showNat.simps [simp del]

definition showInt :: "int \<Rightarrow> string" where
  "showInt i = (if i < 0 then CHR ''-'' # showNat (nat (- i)) else showNat (nat i))"

subsection \<open>\<^verbatim>\<open>strings.Join\<close>\<close>

fun Join :: "string list \<Rightarrow> string \<Rightarrow> string" where
  "Join [] sep = []"
| "Join [x] sep = x"
| "Join (x # y # ys) sep = x @ sep @ Join (y # ys) sep"

subsection \<open>\<^verbatim>\<open>net/url\<close>: a URL with a scheme and a host, and its \<^verbatim>\<open>String()\<close>\<close>

text \<open>
  The controller builds \<^verbatim>\<open>url.URL\<close> values with the fields \<^verbatim>\<open>Scheme\<close> and
  \<^verbatim>\<open>Host\<close> only; every other field is empty. \<^verbatim>\<open>String()\<close> then writes the scheme,
  a colon, two slashes and the host, the host passed through \<^verbatim>\<open>escape(h, encodeHost)\<close>:
  letters, digits, the marks \<^verbatim>\<open>-_.~\<close> and the characters a host may hold
  (\<^verbatim>\<open>!$&'()*+,;=:[]<>"\<close>) stay as they are, every other byte becomes \<^verbatim>\<open>%XX\<close> in
  upper-case hexadecimal.
\<close>

record URL =
  Scheme :: string
  Host :: string

definition unescapedInHost :: "char list" where
  "unescapedInHost =
     ''abcdefghijklmnopqrstuvwxyz'' @ ''ABCDEFGHIJKLMNOPQRSTUVWXYZ'' @ ''0123456789'' @
     ''!$&()*+,;=:[]<>'' @ [CHR 0x27, CHR 0x22] @ ''-_.~''"

definition shouldEscape :: "char \<Rightarrow> bool" where
  "shouldEscape c = (c \<notin> set unescapedInHost)"

definition upperhex :: "char list" where
  "upperhex = ''0123456789ABCDEF''"

definition escapeByte :: "char \<Rightarrow> string" where
  "escapeByte c =
     (if shouldEscape c
      then [CHR ''%'', upperhex ! ((of_char c :: nat) div 16), upperhex ! ((of_char c :: nat) mod 16)]
      else [c])"

definition escape :: "string \<Rightarrow> string" where
  "escape s = concat (map escapeByte s)"

definition URL_String :: "URL \<Rightarrow> string" where
  "URL_String u =
     (if Scheme u \<noteq> [] then Scheme u @ '':'' else []) @
     (if Scheme u \<noteq> [] \<or> Host u \<noteq> []
      then (if Host u \<noteq> [] then ''//'' else []) @ escape (Host u)
      else [])"

section \<open>Kubernetes objects\<close>

text \<open>
  The type declarations of the Kubernetes API and of the operator's own API package
  (\<^verbatim>\<open>api/v1alpha1\<close>) are not among the sources. The records below hold the fields
  the controller reads and writes. A field the controller reaches through a pointer
  (it tests it against \<^verbatim>\<open>nil\<close>, or dereferences it with \<^verbatim>\<open>*\<close>) is an
  \<^typ>\<open>'a option\<close>, and so are the optional sections of the declared
  peer (\<^verbatim>\<open>bootstrap\<close>, \<^verbatim>\<open>storage\<close>, \<^verbatim>\<open>podTemplate\<close>): reading a field through
  \<^term>\<open>None\<close> is the nil-pointer panic of Go, the value \<open>Panic\<close> below.
\<close>

datatype 'a outcome = Panic | Returns 'a

text \<open>
  A \<^verbatim>\<open>metav1.Time\<close> is counted in seconds from Go's zero instant, so \<open>0\<close> is the zero
  time. \<^verbatim>\<open>(*Time).IsZero\<close> holds of a nil pointer and of the zero time.
\<close>

type_synonym Time = int

definition IsZero :: "Time option \<Rightarrow> bool" where
  "IsZero t = (case t of None \<Rightarrow> True | Some i \<Rightarrow> i = 0)"

record OwnerReference =
  RefKind :: string
  RefName :: string
  RefController :: bool
  RefBlockOwnerDeletion :: bool

record ObjectMeta =
  Name :: string
  Namespace :: string
  Labels :: "string \<rightharpoonup> string"
  Annotations :: "string \<rightharpoonup> string"
  Finalizers :: "string list"
  DeletionTimestamp :: "Time option"
  OwnerReferences :: "OwnerReference list"

record NamespacedName =
  KeyNamespace :: string
  KeyName :: string

record Request =
  ReqNamespacedName :: NamespacedName

subsection \<open>\<^verbatim>\<open>resource.Quantity\<close>\<close>

text \<open>
  A quantity is a decimal number; for a CPU limit its unit is the core, so \<open>2500m\<close> is
  \<open>5/2\<close>. \<^verbatim>\<open>Sign()\<close> is \<open>-1\<close>, \<open>0\<close> or \<open>1\<close>. \<^verbatim>\<open>MilliValue()\<close> is documented
  as \<open>ceil(q * 1000)\<close>, an \<^verbatim>\<open>int64\<close> that "could overflow": the result is the
  ceiling where it lies between \<open>- 2^63\<close> and \<open>2^63 - 1\<close> (\<open>fitsMilli\<close>), and beyond
  that the \<^verbatim>\<open>int64\<close> of its low 64 bits (\<open>wrap64\<close>, two's complement).
\<close>

type_synonym Quantity = rat

definition Sign :: "Quantity \<Rightarrow> int" where
  "Sign q = (if q < 0 then - 1 else if q = 0 then 0 else 1)"

definition wrap64 :: "int \<Rightarrow> int" where
  "wrap64 m = (m + 2 ^ 63) mod 2 ^ 64 - 2 ^ 63"

definition MilliValue :: "Quantity \<Rightarrow> int" where
  "MilliValue q = wrap64 \<lceil>q * 1000\<rceil>"

definition fitsMilli :: "Quantity \<Rightarrow> bool" where
  "fitsMilli q = (- (2 ^ 63) \<le> \<lceil>q * 1000\<rceil> \<and> \<lceil>q * 1000\<rceil> \<le> 2 ^ 63 - 1)"

type_synonym ResourceList = "string \<rightharpoonup> Quantity"

text \<open>\<^verbatim>\<open>ResourceList.Cpu()\<close>: the entry \<open>cpu\<close>, or the zero quantity when there is none.\<close>

definition Cpu :: "ResourceList \<Rightarrow> Quantity" where
  "Cpu rl = (case rl ''cpu'' of Some v \<Rightarrow> v | None \<Rightarrow> 0)"

record ResourceRequirements =
  Limits :: ResourceList
  Requests :: ResourceList

subsection \<open>Volume claim and workload\<close>

datatype PersistentVolumeClaimSpec = PersistentVolumeClaimSpec string

record PersistentVolumeClaim =
  PvcMeta :: ObjectMeta
  PvcSpec :: PersistentVolumeClaimSpec

text \<open>
  The names of the environment variables are the constants of the package
  \<^verbatim>\<open>internal/etcdenvvar\<close>, which is not among the sources, and the one literal
  \<^verbatim>\<open>"GOMAXPROCS"\<close>.
\<close>

datatype EnvName =
    EnvInitialCluster
  | EnvName
  | EnvInitialClusterToken
  | EnvInitialAdvertisePeerURLs
  | EnvAdvertiseClientURLs
  | EnvListenPeerURLs
  | EnvListenClientURLs
  | EnvInitialClusterState
  | EnvDataDir
  | EnvLiteral string

record EnvVar =
  VarName :: EnvName
  VarValue :: string

record ContainerPort =
  PortName :: string
  PortNumber :: int

record VolumeMount =
  MountName :: string
  MountPath :: string

record Container =
  ContainerName :: string
  Image :: string
  Env :: "EnvVar list"
  Ports :: "ContainerPort list"
  VolumeMounts :: "VolumeMount list"
  ContainerResources :: ResourceRequirements

record Volume =
  VolumeName :: string
  ClaimName :: string

record PodSpec =
  Hostname :: string
  Subdomain :: string
  Containers :: "Container list"
  Volumes :: "Volume list"

record PodTemplateSpec =
  TemplateMeta :: ObjectMeta
  TemplateSpec :: PodSpec

record ReplicaSet =
  RsMeta :: ObjectMeta
  Replicas :: int
  Selector :: "string \<rightharpoonup> string"
  Template :: PodTemplateSpec

section \<open>The declared peer and the constants of the controller\<close>

record InitialClusterMember =
  MemberName :: string
  MemberHost :: string

record StaticBootstrap =
  InitialCluster :: "InitialClusterMember list"

datatype InitialClusterState =
    InitialClusterStateNew
  | InitialClusterStateExisting
  | InitialClusterStateOther string

record Bootstrap =
  Static :: "StaticBootstrap option"
  BootstrapState :: InitialClusterState

record EtcdPodTemplateObjectMeta =
  PodAnnotations :: "string \<rightharpoonup> string"

record EtcdPodTemplateSpec =
  Metadata :: "EtcdPodTemplateObjectMeta option"
  Resources :: "ResourceRequirements option"

record EtcdPeerStorage =
  VolumeClaimTemplate :: "PersistentVolumeClaimSpec option"

record EtcdPeerSpec =
  ClusterName :: string
  PeerBootstrap :: "Bootstrap option"
  Storage :: "EtcdPeerStorage option"
  PodTemplate :: "EtcdPodTemplateSpec option"

record EtcdPeer =
  PeerMeta :: ObjectMeta
  PeerSpec :: EtcdPeerSpec

definition etcdImage :: string where
  "etcdImage = ''quay.io/coreos/etcd:v3.2.28''"

definition etcdScheme :: string where
  "etcdScheme = ''http''"

definition peerLabel :: string where
  "peerLabel = ''etcd.improbable.io/peer-name''"

definition pvcCleanupFinalizer :: string where
  "pvcCleanupFinalizer = ''etcdpeer.etcd.improbable.io/pvc-cleanup''"

text \<open>
  Modelled from the spec: the declaration of the constant \<^verbatim>\<open>etcdPeerPort\<close> is not
  among the sources; the spec fixes the peer network port at 2380.
\<close>

definition etcdPeerPort :: int where
  "etcdPeerPort = 2380"

text \<open>
  The other names the controller uses and the sources do not declare are parameters:
  the constants \<^verbatim>\<open>appLabel\<close>, \<^verbatim>\<open>appName\<close>, \<^verbatim>\<open>clusterLabel\<close>,
  \<^verbatim>\<open>etcdDataMountPath\<close> and \<^verbatim>\<open>etcdClientPort\<close> of the package, and of the API
  package the finalizer \<^verbatim>\<open>PVCCleanupFinalizer\<close>, the predicate
  \<^verbatim>\<open>IsInvalidUserProvidedAnnotationName\<close>, and the peer's methods \<^verbatim>\<open>Default\<close>
  (which changes the peer in place: here it returns the changed peer) and
  \<^verbatim>\<open>ValidateCreate\<close> (an error, or nil).
\<close>

record Deps =
  appLabel :: string
  appName :: string
  clusterLabel :: string
  etcdDataMountPath :: string
  etcdClientPort :: int
  PVCCleanupFinalizer :: string
  IsInvalidUserProvidedAnnotationName :: "string \<Rightarrow> bool"
  Default :: "EtcdPeer \<Rightarrow> EtcdPeer"
  ValidateCreate :: "EtcdPeer \<Rightarrow> string option"

section \<open>Desired-state builder\<close>

definition initialMemberURL :: "InitialClusterMember \<Rightarrow> URL" where
  "initialMemberURL member =
     \<lparr> Scheme = etcdScheme, Host = MemberHost member @ '':'' @ showInt etcdPeerPort \<rparr>"

definition staticBootstrapInitialCluster :: "StaticBootstrap \<Rightarrow> string" where
  "staticBootstrapInitialCluster static =
     Join (map (\<lambda>member. MemberName member @ ''='' @ URL_String (initialMemberURL member))
             (InitialCluster static)) '',''"

definition advertiseURL :: "EtcdPeer \<Rightarrow> int \<Rightarrow> URL" where
  "advertiseURL etcdPeer port =
     \<lparr> Scheme = etcdScheme,
       Host = Name (PeerMeta etcdPeer) @ ''.'' @ ClusterName (PeerSpec etcdPeer) @ ''.'' @
              Namespace (PeerMeta etcdPeer) @ ''.svc:'' @ showInt port \<rparr>"

definition bindAllAddress :: "int \<Rightarrow> URL" where
  "bindAllAddress port = \<lparr> Scheme = etcdScheme, Host = ''0.0.0.0:'' @ showInt port \<rparr>"

definition clusterStateValue :: "InitialClusterState \<Rightarrow> string" where
  "clusterStateValue cs =
     (if cs = InitialClusterStateNew then ''new''
      else if cs = InitialClusterStateExisting then ''existing''
      else [])"

definition goMaxProcs :: "Quantity \<Rightarrow> int option" where
  "goMaxProcs cpuLimit =
     (if Sign cpuLimit = - 1 \<or> Sign cpuLimit = 0 then None
      else let goMaxProcs = MilliValue cpuLimit sdiv 1000
           in Some (if goMaxProcs < 1 then 1 else goMaxProcs))"

text \<open>
  The labels of the workload, of its selector, of its pod template and of the claim.
\<close>

definition peerLabels :: "Deps \<Rightarrow> EtcdPeer \<Rightarrow> (string \<rightharpoonup> string)" where
  "peerLabels d peer =
     [appLabel d \<mapsto> appName d,
      clusterLabel d \<mapsto> ClusterName (PeerSpec peer),
      peerLabel \<mapsto> Name (PeerMeta peer)]"

text \<open>
  The annotations of the pod template after the loop over the pod customization's
  annotations: the loop starts from the empty map and visits every key once, so a key is
  set exactly when \<^verbatim>\<open>IsInvalidUserProvidedAnnotationName\<close> does not hold of it.
\<close>

definition templateAnnotations :: "Deps \<Rightarrow> EtcdPeer \<Rightarrow> (string \<rightharpoonup> string)" where
  "templateAnnotations d peer =
     (case PodTemplate (PeerSpec peer) of
        None \<Rightarrow> Map.empty
      | Some pt \<Rightarrow>
          (case Metadata pt of
             None \<Rightarrow> Map.empty
           | Some md \<Rightarrow>
               (\<lambda>name. if \<not> IsInvalidUserProvidedAnnotationName d name
                        then PodAnnotations md name else None)))"

definition defineReplicaSet :: "Deps \<Rightarrow> EtcdPeer \<Rightarrow> ReplicaSet outcome" where
  "defineReplicaSet d peer =
     (case PeerBootstrap (PeerSpec peer) of
        None \<Rightarrow> Panic
      | Some bootstrap \<Rightarrow>
     (case Static bootstrap of
        None \<Rightarrow> Panic
      | Some static \<Rightarrow>
     (let labels = peerLabels d peer;
          etcdContainer =
            \<lparr> ContainerName = appName d,
              Image = etcdImage,
              Env =
                [\<lparr> VarName = EnvInitialCluster, VarValue = staticBootstrapInitialCluster static \<rparr>,
                 \<lparr> VarName = EnvName, VarValue = Name (PeerMeta peer) \<rparr>,
                 \<lparr> VarName = EnvInitialClusterToken, VarValue = ClusterName (PeerSpec peer) \<rparr>,
                 \<lparr> VarName = EnvInitialAdvertisePeerURLs,
                   VarValue = URL_String (advertiseURL peer etcdPeerPort) \<rparr>,
                 \<lparr> VarName = EnvAdvertiseClientURLs,
                   VarValue = URL_String (advertiseURL peer (etcdClientPort d)) \<rparr>,
                 \<lparr> VarName = EnvListenPeerURLs,
                   VarValue = URL_String (bindAllAddress etcdPeerPort) \<rparr>,
                 \<lparr> VarName = EnvListenClientURLs,
                   VarValue = URL_String (bindAllAddress (etcdClientPort d)) \<rparr>,
                 \<lparr> VarName = EnvInitialClusterState,
                   VarValue = clusterStateValue (BootstrapState bootstrap) \<rparr>,
                 \<lparr> VarName = EnvDataDir, VarValue = etcdDataMountPath d \<rparr>],
              Ports =
                [\<lparr> PortName = ''etcd-client'', PortNumber = etcdClientPort d \<rparr>,
                 \<lparr> PortName = ''etcd-peer'', PortNumber = etcdPeerPort \<rparr>],
              VolumeMounts = [\<lparr> MountName = ''etcd-data'', MountPath = etcdDataMountPath d \<rparr>],
              ContainerResources = \<lparr> Limits = Map.empty, Requests = Map.empty \<rparr> \<rparr>;
          etcdContainer =
            (case PodTemplate (PeerSpec peer) of
               None \<Rightarrow> etcdContainer
             | Some pt \<Rightarrow>
                 (case Resources pt of
                    None \<Rightarrow> etcdContainer
                  | Some resources \<Rightarrow>
                      (let etcdContainer = etcdContainer \<lparr> ContainerResources := resources \<rparr>
                       in case goMaxProcs (Cpu (Limits (ContainerResources etcdContainer))) of
                            None \<Rightarrow> etcdContainer
                          | Some v \<Rightarrow>
                              etcdContainer
                                \<lparr> Env := Env etcdContainer @
                                    [\<lparr> VarName = EnvLiteral ''GOMAXPROCS'',
                                       VarValue = showInt v \<rparr>] \<rparr>)))
      in Returns
           \<lparr> RsMeta =
               \<lparr> Name = Name (PeerMeta peer),
                 Namespace = Namespace (PeerMeta peer),
                 Labels = labels,
                 Annotations = Map.empty,
                 Finalizers = [],
                 DeletionTimestamp = None,
                 OwnerReferences =
                   [\<lparr> RefKind = ''EtcdPeer'', RefName = Name (PeerMeta peer),
                      RefController = True, RefBlockOwnerDeletion = True \<rparr>] \<rparr>,
             Replicas = 1,
             Selector = labels,
             Template =
               \<lparr> TemplateMeta =
                   \<lparr> Name = Name (PeerMeta peer),
                     Namespace = Namespace (PeerMeta peer),
                     Labels = labels,
                     Annotations = templateAnnotations d peer,
                     Finalizers = [],
                     DeletionTimestamp = None,
                     OwnerReferences = [] \<rparr>,
                 TemplateSpec =
                   \<lparr> Hostname = Name (PeerMeta peer),
                     Subdomain = ClusterName (PeerSpec peer),
                     Containers = [etcdContainer],
                     Volumes =
                       [\<lparr> VolumeName = ''etcd-data'', ClaimName = Name (PeerMeta peer) \<rparr>] \<rparr> \<rparr> \<rparr>)))"

definition pvcForPeer :: "Deps \<Rightarrow> EtcdPeer \<Rightarrow> PersistentVolumeClaim outcome" where
  "pvcForPeer d peer =
     (case Storage (PeerSpec peer) of
        None \<Rightarrow> Panic
      | Some storage \<Rightarrow>
     (case VolumeClaimTemplate storage of
        None \<Rightarrow> Panic
      | Some template \<Rightarrow>
          Returns
            \<lparr> PvcMeta =
                \<lparr> Name = Name (PeerMeta peer),
                  Namespace = Namespace (PeerMeta peer),
                  Labels = peerLabels d peer,
                  Annotations = Map.empty,
                  Finalizers = [],
                  DeletionTimestamp = None,
                  OwnerReferences = [] \<rparr>,
              PvcSpec = template \<rparr>))"

definition hasPvcDeletionFinalizer :: "EtcdPeer \<Rightarrow> bool" where
  "hasPvcDeletionFinalizer peer = (pvcCleanupFinalizer \<in> set (Finalizers (PeerMeta peer)))"

section \<open>The control-plane store, as the controller's client sees it\<close>

text \<open>
  The client is an interface to the store. Its replies are given by a record of
  functions: a read returns the object or an error, a write returns an error or nil.
  Every call the controller makes is kept, in order, in a list of calls, which is what
  the store has been asked to do in a pass.
\<close>

datatype api_error = NotFound | ApiFailure string

definition IsNotFound :: "api_error \<Rightarrow> bool" where
  "IsNotFound err = (err = NotFound)"

text \<open>
  An error of the controller: an error of the client, or the \<^verbatim>\<open>fmt.Errorf\<close> of a
  message around another error.
\<close>

datatype error = ApiErr api_error | Errorf string error

record Client =
  GetPeer :: "NamespacedName \<Rightarrow> api_error + EtcdPeer"
  GetPVC :: "NamespacedName \<Rightarrow> api_error + PersistentVolumeClaim"
  GetReplicaSet :: "NamespacedName \<Rightarrow> api_error + ReplicaSet"
  DeletePVC :: "PersistentVolumeClaim \<Rightarrow> api_error option"
  PatchPeer :: "EtcdPeer \<Rightarrow> EtcdPeer \<Rightarrow> api_error option"

datatype Call =
    CallGetPeer NamespacedName
  | CallGetPVC NamespacedName
  | CallGetReplicaSet NamespacedName
  | CallCreatePVC PersistentVolumeClaim
  | CallCreateReplicaSet ReplicaSet
  | CallDeletePVC PersistentVolumeClaim
  | CallPatchPeer EtcdPeer EtcdPeer

fun isWrite :: "Call \<Rightarrow> bool" where
  "isWrite (CallGetPeer k) = False"
| "isWrite (CallGetPVC k) = False"
| "isWrite (CallGetReplicaSet k) = False"
| "isWrite (CallCreatePVC pvc) = True"
| "isWrite (CallCreateReplicaSet rs) = True"
| "isWrite (CallDeletePVC pvc) = True"
| "isWrite (CallPatchPeer updated original) = True"

section \<open>State collection\<close>

record State =
  peer :: "EtcdPeer option"
  pvc :: "PersistentVolumeClaim option"
  desiredPVC :: "PersistentVolumeClaim option"
  replicaSet :: "ReplicaSet option"
  desiredReplicaSet :: "ReplicaSet option"

text \<open>
  \<^verbatim>\<open>GetState\<close> returns the snapshot or the client's error, unless it panics; with it
  comes the list of the reads it made.
\<close>

definition errOf :: "api_error + 'a \<Rightarrow> api_error option" where
  "errOf r = (case r of Inl err \<Rightarrow> Some err | Inr obj \<Rightarrow> None)"

definition IgnoreNotFound :: "api_error option \<Rightarrow> api_error option" where
  "IgnoreNotFound err =
     (case err of None \<Rightarrow> None | Some e \<Rightarrow> if IsNotFound e then None else Some e)"

definition GetState :: "Deps \<Rightarrow> Client \<Rightarrow> Request \<Rightarrow> (api_error + State) outcome \<times> Call list" where
  "GetState d client req =
     (let key = ReqNamespacedName req;
          state = \<lparr> peer = None, pvc = None, desiredPVC = None,
                    replicaSet = None, desiredReplicaSet = None \<rparr>;
          calls = [CallGetPeer key];
          got = GetPeer client key
      in case IgnoreNotFound (errOf got) of
           Some err \<Rightarrow> (Returns (Inl err), calls)
         | None \<Rightarrow>
     (let state = (case got of Inr p \<Rightarrow> state \<lparr> peer := Some p \<rparr> | Inl err \<Rightarrow> state);
          calls = calls @ [CallGetPVC key];
          got = GetPVC client key
      in case IgnoreNotFound (errOf got) of
           Some err \<Rightarrow> (Returns (Inl err), calls)
         | None \<Rightarrow>
     (let state = (case got of Inr c \<Rightarrow> state \<lparr> pvc := Some c \<rparr> | Inl err \<Rightarrow> state);
          calls = calls @ [CallGetReplicaSet key];
          got = GetReplicaSet client key
      in case IgnoreNotFound (errOf got) of
           Some err \<Rightarrow> (Returns (Inl err), calls)
         | None \<Rightarrow>
     (let state = (case got of Inr rs \<Rightarrow> state \<lparr> replicaSet := Some rs \<rparr> | Inl err \<Rightarrow> state)
      in case peer state of
           None \<Rightarrow> (Returns (Inr state), calls)
         | Some p \<Rightarrow>
             (let p = Default d p
              in case pvcForPeer d p of
                   Panic \<Rightarrow> (Panic, calls)
                 | Returns claim \<Rightarrow>
                     (case defineReplicaSet d p of
                        Panic \<Rightarrow> (Panic, calls)
                      | Returns workload \<Rightarrow>
                          (Returns (Inr (state \<lparr> peer := Some p,
                                                 desiredPVC := Some claim,
                                                 desiredReplicaSet := Some workload \<rparr>)),
                           calls)))))))"

section \<open>The reconciler\<close>

text \<open>
  The three actions \<^verbatim>\<open>Reconcile\<close> chooses from. Their \<^verbatim>\<open>Execute\<close> methods are not
  in the controller's file: \<^verbatim>\<open>Reconcile\<close> takes the execution of an action as a
  parameter, which returns the action's error (or nil), unless it panics, and the calls
  it made.
\<close>

datatype RuntimeObject =
    ClaimObject "PersistentVolumeClaim option"
  | WorkloadObject "ReplicaSet option"

datatype Action =
    PeerPVCDeleter EtcdPeer
  | NoopAction
  | CreateRuntimeObject RuntimeObject

text \<open>
  The \<^verbatim>\<open>switch\<close> of \<^verbatim>\<open>Reconcile\<close>: the first case that holds gives the action, and
  when none holds the action stays nil.
\<close>

definition selectAction :: "State \<Rightarrow> EtcdPeer \<Rightarrow> Action option" where
  "selectAction state p =
     (if \<not> IsZero (DeletionTimestamp (PeerMeta p)) \<and> hasPvcDeletionFinalizer p
        then Some (PeerPVCDeleter p)
      else if \<not> IsZero (DeletionTimestamp (PeerMeta p))
        then Some NoopAction
      else if pvc state = None
        then Some (CreateRuntimeObject (ClaimObject (desiredPVC state)))
      else if replicaSet state = None
        then Some (CreateRuntimeObject (WorkloadObject (desiredReplicaSet state)))
      else None)"

definition Reconcile ::
  "Deps \<Rightarrow> Client \<Rightarrow> (Action \<Rightarrow> error option outcome \<times> Call list) \<Rightarrow> Request
     \<Rightarrow> error option outcome \<times> Call list" where
  "Reconcile d client Execute req =
     (case GetState d client req of
        (Panic, calls) \<Rightarrow> (Panic, calls)
      | (Returns (Inl err), calls) \<Rightarrow>
          (Returns (Some (Errorf ''error while getting current state: '' (ApiErr err))), calls)
      | (Returns (Inr state), calls) \<Rightarrow>
          (case peer state of
             None \<Rightarrow> (Returns None, calls)
           | Some p \<Rightarrow>
               (case ValidateCreate d p of
                  Some err \<Rightarrow> (Returns None, calls)
                | None \<Rightarrow>
                    (case selectAction state p of
                       Some action \<Rightarrow>
                         (case Execute action of (result, acted) \<Rightarrow> (result, calls @ acted))
                     | None \<Rightarrow> (Returns None, calls)))))"

section \<open>Event router\<close>

definition Map_pvcMapper :: "ObjectMeta \<Rightarrow> Request list" where
  "Map_pvcMapper meta =
     (let requests = []
      in case Labels meta peerLabel of
           Some peerName \<Rightarrow>
             requests @
               [\<lparr> ReqNamespacedName = \<lparr> KeyNamespace = Namespace meta, KeyName = peerName \<rparr> \<rparr>]
         | None \<Rightarrow> requests)"

section \<open>The cleanup action\<close>

text \<open>
  \<^verbatim>\<open>client.ObjectKeyFromObject\<close> fails on an object without metadata; a volume claim
  has metadata.
\<close>

definition ObjectKeyFromObject :: "PersistentVolumeClaim \<Rightarrow> error + NamespacedName" where
  "ObjectKeyFromObject obj =
     Inr \<lparr> KeyNamespace = Namespace (PvcMeta obj), KeyName = Name (PvcMeta obj) \<rparr>"

text \<open>
  \<^verbatim>\<open>controllerutil.RemoveFinalizer\<close>, as the controller-runtime of these sources has it
  (the one whose \<^verbatim>\<open>ObjectKeyFromObject\<close> returns an error and whose handlers take a
  \<^verbatim>\<open>Mapper\<close>):
  \<^verbatim>\<open>
  f := o.GetFinalizers()
  for i, e := range f {
      if e == finalizer {
          f = append(f[:i], f[i+1:]...)
      }
  }
  o.SetFinalizers(f)
  \<close>
  The \<^verbatim>\<open>range\<close> runs over the indices of the slice as it was at the start and reads
  each element from the array the slice shares with \<open>f\<close>; the \<^verbatim>\<open>append\<close> moves the
  elements behind \<open>i\<close> one place down in that array and makes \<open>f\<close> one shorter, and
  \<^verbatim>\<open>f[i+1:]\<close> panics when \<open>i + 1\<close> is above the length of \<open>f\<close>. In \<open>rangeLoop\<close> the
  array is \<open>a\<close>, the length of \<open>f\<close> is \<open>l\<close>, the index is \<open>i\<close> and \<open>k\<close> indices are
  left. A list that holds the finalizer once, or not at all, comes out without it; a
  list that holds it more than once keeps a copy or panics.
\<close>

fun rangeLoop :: "string \<Rightarrow> nat \<Rightarrow> nat \<Rightarrow> string list \<Rightarrow> nat \<Rightarrow> string list outcome" where
  "rangeLoop finalizer 0 i a l = Returns (take l a)"
| "rangeLoop finalizer (Suc k) i a l =
     (if a ! i = finalizer
      then (if l < i + 1 then Panic
            else rangeLoop finalizer k (i + 1)
                   (take i a @ drop (i + 1) (take l a) @ drop (l - 1) a) (l - 1))
      else rangeLoop finalizer k (i + 1) a l)"

definition RemoveFinalizer :: "EtcdPeer \<Rightarrow> string \<Rightarrow> EtcdPeer outcome" where
  "RemoveFinalizer p finalizer =
     (let f = Finalizers (PeerMeta p)
      in case rangeLoop finalizer (length f) 0 f (length f) of
           Panic \<Rightarrow> Panic
         | Returns f \<Rightarrow> Returns (p \<lparr> PeerMeta := (PeerMeta p) \<lparr> Finalizers := f \<rparr> \<rparr>))"

text \<open>
  \<^verbatim>\<open>PVCDeleter.Execute\<close> of the package \<^verbatim>\<open>peer\<close>. The function \<^verbatim>\<open>pvcForPeer\<close>
  of that package is not among the sources: the model calls the controller's function
  of the same name, which gives the claim the name and the namespace of the peer. After
  the \<^verbatim>\<open>switch\<close> on the result of the read, the cases that do not return go on to
  the removal of the finalizer (\<open>removeFinalizer\<close> below).
\<close>

definition Execute_PVCDeleter ::
  "Deps \<Rightarrow> Client \<Rightarrow> EtcdPeer \<Rightarrow> error option outcome \<times> Call list" where
  "Execute_PVCDeleter d client Peer =
     (case pvcForPeer d Peer of
        Panic \<Rightarrow> (Panic, [])
      | Returns expectedPvc \<Rightarrow>
     (case ObjectKeyFromObject expectedPvc of
        Inl err \<Rightarrow> (Returns (Some (Errorf ''unable to get ObjectKey from PVC: '' err)), [])
      | Inr expectedPvcNamespacedName \<Rightarrow>
     (let calls = [CallGetPVC expectedPvcNamespacedName];
          removeFinalizer =
            (case RemoveFinalizer Peer (PVCCleanupFinalizer d) of
               Panic \<Rightarrow> (Panic, calls)
             | Returns updated \<Rightarrow>
                 (let calls = calls @ [CallPatchPeer updated Peer]
                  in case PatchPeer client updated Peer of
                       Some err \<Rightarrow>
                         (Returns (Some (Errorf ''failed to remove PVC cleanup finalizer: ''
                                           (ApiErr err))),
                          calls)
                     | None \<Rightarrow> (Returns None, calls)))
      in case GetPVC client expectedPvcNamespacedName of
           Inr actualPvc \<Rightarrow>
             if IsZero (DeletionTimestamp (PvcMeta actualPvc))
             then (let calls = calls @ [CallDeletePVC expectedPvc]
                   in case DeletePVC client expectedPvc of
                        None \<Rightarrow> (Returns None, calls)
                      | Some err \<Rightarrow>
                          (Returns (Some (Errorf ''failed to delete PVC for peer: '' (ApiErr err))),
                           calls))
             else removeFinalizer
         | Inl err \<Rightarrow>
             if IsNotFound err then removeFinalizer
             else (Returns (Some (Errorf ''failed to get PVC for deleted peer: '' (ApiErr err))),
                   calls))))"

section \<open>Reading a workload, and example values\<close>

text \<open>
  The values the containers of a workload give to an environment variable, in the order
  of the environment; and the CPU limit of a peer's pod customization, when it has one.
\<close>

definition envValues :: "EnvName \<Rightarrow> ReplicaSet \<Rightarrow> string list" where
  "envValues name rs =
     map VarValue (filter (\<lambda>v. VarName v = name)
       (concat (map Env (Containers (TemplateSpec (Template rs))))))"

definition cpuLimitOf :: "EtcdPeer \<Rightarrow> Quantity option" where
  "cpuLimitOf p =
     (case PodTemplate (PeerSpec p) of
        None \<Rightarrow> None
      | Some pt \<Rightarrow> (case Resources pt of None \<Rightarrow> None | Some r \<Rightarrow> Limits r ''cpu''))"

text \<open>A host that \<^verbatim>\<open>String()\<close> writes as it is: none of its bytes is escaped.\<close>

definition hostSafe :: "string \<Rightarrow> bool" where
  "hostSafe h = (\<forall>c \<in> set h. \<not> shouldEscape c)"

text \<open>
  Example values, for the instances below: the parameters as the operator could set
  them, the two-member cluster of the spec, the three-member cluster of the sample
  manifest, and the peer \<open>one\<close> of that manifest with a CPU limit of 2500m.
\<close>

definition example_deps :: Deps where
  "example_deps =
     \<lparr> appLabel = ''app.kubernetes.io/name'',
       appName = ''etcd'',
       clusterLabel = ''etcd.improbable.io/cluster-name'',
       etcdDataMountPath = ''/var/lib/etcd'',
       etcdClientPort = 2379,
       PVCCleanupFinalizer = pvcCleanupFinalizer,
       IsInvalidUserProvidedAnnotationName = (\<lambda>name. take 18 name = ''etcd.improbable.io''),
       Default = (\<lambda>p. p),
       ValidateCreate = (\<lambda>p. None) \<rparr>"

definition two_members :: StaticBootstrap where
  "two_members =
     \<lparr> InitialCluster =
         [\<lparr> MemberName = ''one'', MemberHost = ''one.magic.default.svc'' \<rparr>,
          \<lparr> MemberName = ''two'', MemberHost = ''two.magic.default.svc'' \<rparr>] \<rparr>"

definition three_members :: StaticBootstrap where
  "three_members =
     \<lparr> InitialCluster =
         [\<lparr> MemberName = ''one'', MemberHost = ''one.magic.default.svc'' \<rparr>,
          \<lparr> MemberName = ''two'', MemberHost = ''two.magic.default.svc'' \<rparr>,
          \<lparr> MemberName = ''three'', MemberHost = ''three.magic.default.svc'' \<rparr>] \<rparr>"

definition spaced_member :: StaticBootstrap where
  "spaced_member = \<lparr> InitialCluster = [\<lparr> MemberName = ''one'', MemberHost = ''a b'' \<rparr>] \<rparr>"

definition example_meta :: ObjectMeta where
  "example_meta =
     \<lparr> Name = ''one'', Namespace = ''default'', Labels = Map.empty, Annotations = Map.empty,
       Finalizers = [], DeletionTimestamp = None, OwnerReferences = [] \<rparr>"

definition example_spec :: EtcdPeerSpec where
  "example_spec =
     \<lparr> ClusterName = ''magic'',
       PeerBootstrap =
         Some \<lparr> Static = Some three_members, BootstrapState = InitialClusterStateNew \<rparr>,
       Storage = Some \<lparr> VolumeClaimTemplate = Some (PersistentVolumeClaimSpec ''1Gi'') \<rparr>,
       PodTemplate =
         Some \<lparr> Metadata = None,
                Resources = Some \<lparr> Limits = [''cpu'' \<mapsto> 5 / 2], Requests = Map.empty \<rparr> \<rparr> \<rparr>"

definition example_peer :: EtcdPeer where
  "example_peer = \<lparr> PeerMeta = example_meta, PeerSpec = example_spec \<rparr>"

text \<open>
  What a list of calls holds, what a read returned, and the key of a peer, which is
  also the key of its claim and of its workload.
\<close>

fun isPatch :: "Call \<Rightarrow> bool" where
  "isPatch (CallPatchPeer updated original) = True"
| "isPatch c = False"


definition reads :: "Request \<Rightarrow> Call list" where
  "reads req =
     [CallGetPeer (ReqNamespacedName req), CallGetPVC (ReqNamespacedName req),
      CallGetReplicaSet (ReqNamespacedName req)]"

definition hardFailure :: "api_error + 'a \<Rightarrow> bool" where
  "hardFailure r = (case r of Inl err \<Rightarrow> \<not> IsNotFound err | Inr obj \<Rightarrow> False)"

definition present :: "api_error + 'a \<Rightarrow> 'a option" where
  "present r = (case r of Inl err \<Rightarrow> None | Inr obj \<Rightarrow> Some obj)"

definition keyOfPeer :: "EtcdPeer \<Rightarrow> NamespacedName" where
  "keyOfPeer p = \<lparr> KeyNamespace = Namespace (PeerMeta p), KeyName = Name (PeerMeta p) \<rparr>"

text \<open>The peer with every copy of a finalizer taken out of its list of finalizers.\<close>

definition withoutFinalizer :: "EtcdPeer \<Rightarrow> string \<Rightarrow> EtcdPeer" where
  "withoutFinalizer p finalizer =
     p \<lparr> PeerMeta := (PeerMeta p)
           \<lparr> Finalizers := removeAll finalizer (Finalizers (PeerMeta p)) \<rparr> \<rparr>"

definition lacksStaticBootstrap :: "EtcdPeer \<Rightarrow> bool" where
  "lacksStaticBootstrap p =
     (case PeerBootstrap (PeerSpec p) of None \<Rightarrow> True | Some b \<Rightarrow> Static b = None)"

text \<open>
  More example values: the key and the claim of the peer \<open>one\<close>, that claim marked for
  deletion, the peer marked for deletion with the cleanup finalizer, that peer without
  the finalizer, the peer with a CPU limit of 1.9995 cores, the peer without a
  bootstrap section, a client that answers every read with a fixed reply and accepts
  every write, parameters whose validation rejects a peer without a static bootstrap
  list, parameters whose validation rejects every peer, and an execution of the actions
  in which the cleanup action is \<^verbatim>\<open>PVCDeleter.Execute\<close> and the other two do
  nothing.
\<close>

definition example_key :: NamespacedName where
  "example_key = \<lparr> KeyNamespace = ''default'', KeyName = ''one'' \<rparr>"

definition example_request :: Request where
  "example_request = \<lparr> ReqNamespacedName = example_key \<rparr>"

definition example_claim :: PersistentVolumeClaim where
  "example_claim =
     \<lparr> PvcMeta = example_meta \<lparr> Labels := peerLabels example_deps example_peer \<rparr>,
       PvcSpec = PersistentVolumeClaimSpec ''1Gi'' \<rparr>"

definition deleting_claim :: PersistentVolumeClaim where
  "deleting_claim =
     example_claim \<lparr> PvcMeta := (PvcMeta example_claim) \<lparr> DeletionTimestamp := Some 1 \<rparr> \<rparr>"

definition deleted_peer :: EtcdPeer where
  "deleted_peer =
     example_peer \<lparr> PeerMeta := example_meta \<lparr> Finalizers := [pvcCleanupFinalizer],
                                                  DeletionTimestamp := Some 1 \<rparr> \<rparr>"

definition finalized_peer :: EtcdPeer where
  "finalized_peer =
     example_peer \<lparr> PeerMeta := example_meta \<lparr> Finalizers := [],
                                                  DeletionTimestamp := Some 1 \<rparr> \<rparr>"

definition fractional_peer :: EtcdPeer where
  "fractional_peer =
     example_peer \<lparr> PeerSpec := example_spec \<lparr> PodTemplate :=
       Some \<lparr> Metadata = None,
              Resources = Some \<lparr> Limits = [''cpu'' \<mapsto> 19995 / 10000],
                                 Requests = Map.empty \<rparr> \<rparr> \<rparr> \<rparr>"

definition bare_peer :: EtcdPeer where
  "bare_peer = example_peer \<lparr> PeerSpec := example_spec \<lparr> PeerBootstrap := None \<rparr> \<rparr>"

definition labelled_meta :: ObjectMeta where
  "labelled_meta = example_meta \<lparr> Labels := [peerLabel \<mapsto> ''one''] \<rparr>"

definition client_of ::
  "api_error + EtcdPeer \<Rightarrow> api_error + PersistentVolumeClaim \<Rightarrow> api_error + ReplicaSet
     \<Rightarrow> Client" where
  "client_of p c r =
     \<lparr> GetPeer = (\<lambda>k. p), GetPVC = (\<lambda>k. c), GetReplicaSet = (\<lambda>k. r),
       DeletePVC = (\<lambda>obj. None), PatchPeer = (\<lambda>updated original. None) \<rparr>"

definition strict_deps :: Deps where
  "strict_deps =
     example_deps \<lparr> ValidateCreate :=
       (\<lambda>p. if lacksStaticBootstrap p then Some ''spec.bootstrap.static: Required value''
            else None) \<rparr>"

definition rejecting_deps :: Deps where
  "rejecting_deps = example_deps \<lparr> ValidateCreate := (\<lambda>p. Some ''invalid EtcdPeer'') \<rparr>"

definition example_Execute ::
  "Deps \<Rightarrow> Client \<Rightarrow> Action \<Rightarrow> error option outcome \<times> Call list" where
  "example_Execute d client action =
     (case action of
        PeerPVCDeleter p \<Rightarrow> Execute_PVCDeleter d client p
      | NoopAction \<Rightarrow> (Returns None, [])
      | CreateRuntimeObject obj \<Rightarrow> (Returns None, []))"

section \<open>Properties of the library functions\<close>

lemma escape_append: "escape (a @ b) = escape a @ escape b"
  by (simp add: escape_def)

lemma escape_hostSafe: "hostSafe h \<Longrightarrow> escape h = h"
  unfolding hostSafe_def by (induction h) (simp_all add: escape_def escapeByte_def)

lemma hostSafe_append: "hostSafe (a @ b) = (hostSafe a \<and> hostSafe b)"
  by (auto simp add: hostSafe_def)

lemma digit_safe: "n < 10 \<Longrightarrow> \<not> shouldEscape (digit n)"
proof -
  assume "n < 10"
  then have "n \<in> {0, 1, 2, 3, 4, 5, 6, 7, 8, 9}" by auto
  then show ?thesis
    by (auto simp add: digit_def shouldEscape_def unescapedInHost_def)
qed

lemma showNat_safe: "hostSafe (showNat n)"
proof (induction n rule: showNat.induct)
  case (1 n)
  show ?case
  proof (cases "n < 10")
    case True
    then show ?thesis by (simp add: showNat.simps [of n] digit_safe hostSafe_def)
  next
    case False
    with 1 show ?thesis by (simp add: showNat.simps [of n] digit_safe hostSafe_def)
  qed
qed

lemma showInt_safe: "hostSafe (showInt i)"
  using showNat_safe [of "nat (- i)"] showNat_safe [of "nat i"]
  by (simp add: showInt_def hostSafe_def shouldEscape_def unescapedInHost_def)

lemma showInt_etcdPeerPort: "showInt etcdPeerPort = ''2380''"
  by (simp add: etcdPeerPort_def showInt_def showNat.simps [of 2380] showNat.simps [of 238]
        showNat.simps [of 23] showNat.simps [of 2] digit_def)

lemma URL_String_http:
  "URL_String \<lparr> Scheme = etcdScheme, Host = h \<rparr> =
     ''http:'' @ (if h = [] then [] else ''//'' @ escape h)"
  by (simp add: URL_String_def etcdScheme_def escape_def)

lemma initialMemberURL_String:
  "URL_String (initialMemberURL m) = ''http://'' @ escape (MemberHost m) @ '':2380''"
proof -
  have "hostSafe '':2380''"
    by (simp add: hostSafe_def shouldEscape_def unescapedInHost_def)
  then have "escape '':2380'' = '':2380''"
    by (rule escape_hostSafe)
  then show ?thesis
    by (simp add: initialMemberURL_def URL_String_http showInt_etcdPeerPort escape_append)
qed

lemma advertiseURL_String:
  "URL_String (advertiseURL p port) =
     ''http://'' @ escape (Name (PeerMeta p) @ ''.'' @ ClusterName (PeerSpec p) @ ''.'' @
                            Namespace (PeerMeta p) @ ''.svc'') @ '':'' @ showInt port"
proof -
  have "hostSafe '':''"
    by (simp add: hostSafe_def shouldEscape_def unescapedInHost_def)
  then have "hostSafe ('':'' @ showInt port)"
    by (simp only: hostSafe_append showInt_safe simp_thms)
  then have "escape ('':'' @ showInt port) = '':'' @ showInt port"
    by (rule escape_hostSafe)
  then have "escape (Name (PeerMeta p) @ ''.'' @ ClusterName (PeerSpec p) @ ''.'' @
                      Namespace (PeerMeta p) @ ''.svc:'' @ showInt port) =
             escape (Name (PeerMeta p) @ ''.'' @ ClusterName (PeerSpec p) @ ''.'' @
                      Namespace (PeerMeta p) @ ''.svc'') @ '':'' @ showInt port"
    by (simp add: escape_append) (simp add: escape_def)
  then show ?thesis
    by (simp add: advertiseURL_def URL_String_http)
qed

section \<open>Bootstrap rendering\<close>

lemma initialCluster_escaped:
  "staticBootstrapInitialCluster static =
     Join (map (\<lambda>m. MemberName m @ ''=http://'' @ escape (MemberHost m) @ '':2380'')
             (InitialCluster static)) '',''"
  by (simp add: staticBootstrapInitialCluster_def initialMemberURL_String)

lemma initialCluster_plain:
  assumes "\<forall>m \<in> set (InitialCluster static). hostSafe (MemberHost m)"
  shows "staticBootstrapInitialCluster static =
          Join (map (\<lambda>m. MemberName m @ ''=http://'' @ MemberHost m @ '':2380'')
                  (InitialCluster static)) '',''"
proof -
  have "map (\<lambda>m. MemberName m @ ''=http://'' @ escape (MemberHost m) @ '':2380'')
          (InitialCluster static) =
        map (\<lambda>m. MemberName m @ ''=http://'' @ MemberHost m @ '':2380'') (InitialCluster static)"
    by (rule map_cong [OF refl]) (simp add: escape_hostSafe assms)
  then show ?thesis by (simp only: initialCluster_escaped)
qed

lemma two_members_safe: "\<forall>m \<in> set (InitialCluster two_members). hostSafe (MemberHost m)"
  by (simp add: two_members_def hostSafe_def shouldEscape_def unescapedInHost_def)

text \<open>
  C7, as the code has it. The initial-cluster value is the members in list order, each
  rendered as \<open>name=http://host:2380\<close>, joined by commas, where the host is written as
  a URL writes it: a byte outside the host characters is percent-encoded. For a list
  whose hosts hold host characters only (every DNS name does) the host is written as it
  is, and the two-member list of the spec renders to
  \<open>one=http://one.magic.default.svc:2380,two=http://two.magic.default.svc:2380\<close>.
\<close>

theorem staticBootstrapInitialCluster_rendering:
  "staticBootstrapInitialCluster static =
     Join (map (\<lambda>m. MemberName m @ ''=http://'' @ escape (MemberHost m) @ '':2380'')
             (InitialCluster static)) '',''
   \<and> ((\<forall>m \<in> set (InitialCluster static). hostSafe (MemberHost m)) \<longrightarrow>
        staticBootstrapInitialCluster static =
          Join (map (\<lambda>m. MemberName m @ ''=http://'' @ MemberHost m @ '':2380'')
                  (InitialCluster static)) '','')
   \<and> staticBootstrapInitialCluster two_members =
        ''one=http://one.magic.default.svc:2380,two=http://two.magic.default.svc:2380''"
proof -
  have "staticBootstrapInitialCluster two_members =
        ''one=http://one.magic.default.svc:2380,two=http://two.magic.default.svc:2380''"
    by (simp add: initialCluster_plain [OF two_members_safe]) (simp add: two_members_def)
  then show ?thesis
    using initialCluster_escaped initialCluster_plain by blast
qed

text \<open>
  The rendering at the three members of the sample manifest, whose hosts hold host
  characters only.
\<close>

theorem staticBootstrapInitialCluster_rendering_witness:
  "list_all (\<lambda>m. hostSafe (MemberHost m)) (InitialCluster three_members) \<and>
   staticBootstrapInitialCluster three_members =
     ''one=http://one.magic.default.svc:2380,two=http://two.magic.default.svc:2380,three=http://three.magic.default.svc:2380''"
proof -
  have safe: "\<forall>m \<in> set (InitialCluster three_members). hostSafe (MemberHost m)"
    by (simp add: three_members_def hostSafe_def shouldEscape_def unescapedInHost_def)
  have "staticBootstrapInitialCluster three_members =
          Join (map (\<lambda>m. MemberName m @ ''=http://'' @ MemberHost m @ '':2380'')
                  (InitialCluster three_members)) '',''"
    using staticBootstrapInitialCluster_rendering [of three_members] safe by blast
  then have "staticBootstrapInitialCluster three_members =
     ''one=http://one.magic.default.svc:2380,two=http://two.magic.default.svc:2380,three=http://three.magic.default.svc:2380''"
    by (simp add: three_members_def)
  with safe show ?thesis by (simp add: list_all_iff)
qed

text \<open>
  C7 as the spec states it fails for a host with a byte outside the host characters: the
  member \<open>one\<close> at the host \<open>a b\<close> is rendered with \<open>%20\<close> for the space, not as
  \<open>one=http://a b:2380\<close>.
\<close>

theorem staticBootstrapInitialCluster_escapes_host:
  "staticBootstrapInitialCluster spaced_member = ''one=http://a%20b:2380'' \<and>
   staticBootstrapInitialCluster spaced_member \<noteq>
     Join (map (\<lambda>m. MemberName m @ ''=http://'' @ MemberHost m @ '':2380'')
             (InitialCluster spaced_member)) '',''"
  by (simp add: initialCluster_escaped spaced_member_def escape_def escapeByte_def
        shouldEscape_def unescapedInHost_def upperhex_def)

section \<open>The environment of the workload\<close>

lemma envValues_AdvertisePeer:
  "defineReplicaSet d p = Returns rs \<Longrightarrow>
   envValues EnvInitialAdvertisePeerURLs rs = [URL_String (advertiseURL p etcdPeerPort)]"
  by (auto simp add: defineReplicaSet_def envValues_def Let_def split: option.splits)

lemma envValues_AdvertiseClient:
  "defineReplicaSet d p = Returns rs \<Longrightarrow>
   envValues EnvAdvertiseClientURLs rs = [URL_String (advertiseURL p (etcdClientPort d))]"
  by (auto simp add: defineReplicaSet_def envValues_def Let_def split: option.splits)

lemma envValues_GOMAXPROCS:
  "defineReplicaSet d p = Returns rs \<Longrightarrow>
   envValues (EnvLiteral ''GOMAXPROCS'') rs =
     (case cpuLimitOf p of
        None \<Rightarrow> []
      | Some q \<Rightarrow> (case goMaxProcs q of None \<Rightarrow> [] | Some v \<Rightarrow> [showInt v]))"
  by (auto simp add: defineReplicaSet_def envValues_def cpuLimitOf_def Cpu_def Let_def
        goMaxProcs_def Sign_def split: option.splits)

lemma example_workload: "\<exists>rs. defineReplicaSet example_deps example_peer = Returns rs"
  by (simp add: defineReplicaSet_def example_peer_def example_spec_def Let_def
        split: option.splits)

lemma example_peer_safe:
  "hostSafe (Name (PeerMeta example_peer)) \<and> hostSafe (ClusterName (PeerSpec example_peer)) \<and>
   hostSafe (Namespace (PeerMeta example_peer))"
  by (simp add: example_peer_def example_meta_def example_spec_def hostSafe_def shouldEscape_def
        unescapedInHost_def)

subsection \<open>Concurrency hint\<close>

lemma wrap64_fits: "- (2 ^ 63) \<le> m \<Longrightarrow> m \<le> 2 ^ 63 - 1 \<Longrightarrow> wrap64 m = m"
  by (simp add: wrap64_def)

lemma MilliValue_fits: "fitsMilli q \<Longrightarrow> MilliValue q = \<lceil>q * 1000\<rceil>"
  by (simp add: MilliValue_def fitsMilli_def wrap64_fits)

lemma goMaxProcs_nonpos: "q \<le> 0 \<Longrightarrow> goMaxProcs q = None"
  by (simp add: goMaxProcs_def Sign_def)

lemma goMaxProcs_pos:
  assumes "0 < q" and "fitsMilli q"
  shows "goMaxProcs q = Some (max 1 (\<lceil>q * 1000\<rceil> div 1000))"
proof -
  have "0 < q * 1000" using assms(1) by simp
  then have "0 < MilliValue q"
    by (simp add: MilliValue_fits [OF assms(2)] ceiling_less_iff)
  then have "MilliValue q sdiv 1000 = MilliValue q div 1000"
    by (simp add: signed_divide_int_def)
  with assms(1) show ?thesis
    by (simp add: goMaxProcs_def Sign_def Let_def max_def MilliValue_fits [OF assms(2)])
qed

lemma goMaxProcs_2500m: "goMaxProcs (5 / 2) = Some 2"
  by code_simp

lemma goMaxProcs_250m: "goMaxProcs (1 / 4) = Some 1"
  by code_simp

lemma goMaxProcs_overflow: "goMaxProcs (2 ^ 63 / 1000) = Some 1"
  by code_simp

lemma fractional_peer_workload:
  "\<exists>rs. defineReplicaSet example_deps fractional_peer = Returns rs"
  by (simp add: defineReplicaSet_def fractional_peer_def example_peer_def example_spec_def
        Let_def split: option.splits)

text \<open>
  C6 fails on the code at a CPU limit that is not a whole number of millicores. The
  limit 1.9995 (written \<open>1999500u\<close>) is above zero and its floor in whole cores is 1,
  so the hint of the spec, and of the comment of \<^verbatim>\<open>goMaxProcs\<close> ("an integer between 1
  and floor(cpuLimit)"), is 1; \<^verbatim>\<open>goMaxProcs\<close> returns 2, and the workload of the peer
  with this limit has \<open>GOMAXPROCS\<close> set to \<open>2\<close>.
\<close>

theorem goMaxProcs_rounds_up_millicores:
  "0 < (19995 / 10000 :: rat) \<and> max 1 \<lfloor>(19995 / 10000 :: rat)\<rfloor> = 1 \<and>
   goMaxProcs (19995 / 10000) = Some 2 \<and>
   cpuLimitOf fractional_peer = Some (19995 / 10000) \<and>
   (\<exists>rs. defineReplicaSet example_deps fractional_peer = Returns rs \<and>
         envValues (EnvLiteral ''GOMAXPROCS'') rs = [''2''])"
proof -
  have hint: "goMaxProcs (19995 / 10000) = Some 2"
    by code_simp
  have limit: "cpuLimitOf fractional_peer = Some (19995 / 10000)"
    by (simp add: cpuLimitOf_def fractional_peer_def example_peer_def example_spec_def)
  obtain rs where rs: "defineReplicaSet example_deps fractional_peer = Returns rs"
    using fractional_peer_workload by blast
  have two: "showInt 2 = ''2''"
    by (simp add: showInt_def showNat.simps [of 2] digit_def)
  have "envValues (EnvLiteral ''GOMAXPROCS'') rs = [''2'']"
    by (simp only: envValues_GOMAXPROCS [OF rs] limit hint option.case two)
  moreover have "0 < (19995 / 10000 :: rat) \<and> max 1 \<lfloor>(19995 / 10000 :: rat)\<rfloor> = 1"
    by code_simp
  ultimately show ?thesis
    using hint limit rs by blast
qed

subsection \<open>Advertised URLs\<close>

text \<open>
  C8. In the environment of the workload the advertised peer URL and the advertised
  client URL are \<open>http://\<close>, the host \<open>name.cluster.namespace.svc\<close> of the peer (written
  as a URL writes it), a colon and the port: the peer port 2380 and the client port.
  When the three names hold host characters only, as Kubernetes names do, the host is
  written as it is.
\<close>

theorem advertised_urls:
  assumes "defineReplicaSet d p = Returns rs"
  shows "envValues EnvInitialAdvertisePeerURLs rs =
           [''http://'' @ escape (Name (PeerMeta p) @ ''.'' @ ClusterName (PeerSpec p) @ ''.'' @
                                  Namespace (PeerMeta p) @ ''.svc'') @ '':'' @ showInt etcdPeerPort]
       \<and> envValues EnvAdvertiseClientURLs rs =
           [''http://'' @ escape (Name (PeerMeta p) @ ''.'' @ ClusterName (PeerSpec p) @ ''.'' @
                                  Namespace (PeerMeta p) @ ''.svc'') @ '':'' @
              showInt (etcdClientPort d)]
       \<and> (hostSafe (Name (PeerMeta p)) \<and> hostSafe (ClusterName (PeerSpec p)) \<and>
            hostSafe (Namespace (PeerMeta p)) \<longrightarrow>
            envValues EnvInitialAdvertisePeerURLs rs =
              [''http://'' @ Name (PeerMeta p) @ ''.'' @ ClusterName (PeerSpec p) @ ''.'' @
                 Namespace (PeerMeta p) @ ''.svc:2380''] \<and>
            envValues EnvAdvertiseClientURLs rs =
              [''http://'' @ Name (PeerMeta p) @ ''.'' @ ClusterName (PeerSpec p) @ ''.'' @
                 Namespace (PeerMeta p) @ ''.svc:'' @ showInt (etcdClientPort d)])"
proof -
  note peer_url = envValues_AdvertisePeer [OF assms]
  note client_url = envValues_AdvertiseClient [OF assms]
  have dot: "hostSafe ''.''" and svc: "hostSafe ''.svc''"
    by (simp_all add: hostSafe_def shouldEscape_def unescapedInHost_def)
  have plain: "escape (Name (PeerMeta p) @ ''.'' @ ClusterName (PeerSpec p) @ ''.'' @
                        Namespace (PeerMeta p) @ ''.svc'') =
               Name (PeerMeta p) @ ''.'' @ ClusterName (PeerSpec p) @ ''.'' @
                 Namespace (PeerMeta p) @ ''.svc''"
    if "hostSafe (Name (PeerMeta p))" "hostSafe (ClusterName (PeerSpec p))"
      "hostSafe (Namespace (PeerMeta p))"
    by (rule escape_hostSafe) (simp only: hostSafe_append that dot svc simp_thms)
  show ?thesis
    unfolding peer_url client_url advertiseURL_String
    using plain by (simp add: showInt_etcdPeerPort)
qed

text \<open>The advertised URLs of the example peer \<open>one\<close> of the cluster \<open>magic\<close>.\<close>

theorem advertised_urls_witness:
  "\<exists>rs. defineReplicaSet example_deps example_peer = Returns rs \<and>
     envValues EnvInitialAdvertisePeerURLs rs = [''http://one.magic.default.svc:2380''] \<and>
     envValues EnvAdvertiseClientURLs rs = [''http://one.magic.default.svc:2379'']"
proof -
  obtain rs where rs: "defineReplicaSet example_deps example_peer = Returns rs"
    using example_workload by blast
  have port: "showInt (etcdClientPort example_deps) = ''2379''"
    by (simp add: example_deps_def showInt_def showNat.simps [of 2379] showNat.simps [of 237]
          showNat.simps [of 23] showNat.simps [of 2] digit_def)
  have "envValues EnvInitialAdvertisePeerURLs rs =
          [''http://'' @ Name (PeerMeta example_peer) @ ''.'' @
             ClusterName (PeerSpec example_peer) @ ''.'' @
             Namespace (PeerMeta example_peer) @ ''.svc:2380''] \<and>
        envValues EnvAdvertiseClientURLs rs =
          [''http://'' @ Name (PeerMeta example_peer) @ ''.'' @
             ClusterName (PeerSpec example_peer) @ ''.'' @
             Namespace (PeerMeta example_peer) @ ''.svc:'' @
             showInt (etcdClientPort example_deps)]"
    using advertised_urls [OF rs] example_peer_safe by blast
  then have "envValues EnvInitialAdvertisePeerURLs rs = [''http://one.magic.default.svc:2380''] \<and>
     envValues EnvAdvertiseClientURLs rs = [''http://one.magic.default.svc:2379'']"
    by (simp add: port example_peer_def example_meta_def example_spec_def)
  with rs show ?thesis by blast
qed

section \<open>Event router\<close>

text \<open>
  C9. For the metadata of a watched object: without the peer-identity label the mapping
  returns no request, and with the label it returns exactly one request, whose name is
  the label's value and whose namespace is the object's namespace.
\<close>

theorem Map_pvcMapper_label:
  "(Labels meta peerLabel = None \<longrightarrow> Map_pvcMapper meta = []) \<and>
   (Labels meta peerLabel = Some peerName \<longrightarrow>
      Map_pvcMapper meta =
        [\<lparr> ReqNamespacedName = \<lparr> KeyNamespace = Namespace meta, KeyName = peerName \<rparr> \<rparr>])"
  by (simp add: Map_pvcMapper_def)

text \<open>An object without labels, and one labelled with the peer \<open>one\<close>.\<close>

theorem Map_pvcMapper_label_witness:
  "Labels example_meta peerLabel = None \<and> Map_pvcMapper example_meta = [] \<and>
   Labels labelled_meta peerLabel = Some ''one'' \<and>
   Map_pvcMapper labelled_meta = [example_request]"
proof -
  have none: "Labels example_meta peerLabel = None"
    by (simp add: example_meta_def)
  have some: "Labels labelled_meta peerLabel = Some ''one''"
    by (simp add: labelled_meta_def)
  from Map_pvcMapper_label [of example_meta] none have a: "Map_pvcMapper example_meta = []"
    by blast
  from Map_pvcMapper_label [of labelled_meta "''one''"] some
  have "Map_pvcMapper labelled_meta =
          [\<lparr> ReqNamespacedName = \<lparr> KeyNamespace = Namespace labelled_meta, KeyName = ''one'' \<rparr> \<rparr>]"
    by blast
  then have b: "Map_pvcMapper labelled_meta = [example_request]"
    by (simp add: labelled_meta_def example_meta_def example_request_def example_key_def)
  from none some a b show ?thesis by blast
qed

section \<open>The builder and the example peers\<close>

lemma pvcForPeer_returns:
  "Storage (PeerSpec p) = Some storage \<Longrightarrow> VolumeClaimTemplate storage = Some template \<Longrightarrow>
   \<exists>claim. pvcForPeer d p = Returns claim"
  by (simp add: pvcForPeer_def)

lemma defineReplicaSet_returns:
  "\<not> lacksStaticBootstrap p \<Longrightarrow> \<exists>workload. defineReplicaSet d p = Returns workload"
  by (auto simp add: lacksStaticBootstrap_def defineReplicaSet_def Let_def split: option.splits)

lemma lacksStaticBootstrap_Panic:
  "lacksStaticBootstrap p \<Longrightarrow> defineReplicaSet d p = Panic"
  by (simp add: lacksStaticBootstrap_def defineReplicaSet_def split: option.splits)

lemma pvcForPeer_key:
  "pvcForPeer d p = Returns expected \<Longrightarrow> ObjectKeyFromObject expected = Inr (keyOfPeer p)"
  by (auto simp add: pvcForPeer_def ObjectKeyFromObject_def keyOfPeer_def split: option.splits)

lemma example_peer_claim: "\<exists>claim. pvcForPeer d example_peer = Returns claim"
  by (rule pvcForPeer_returns [of _ "\<lparr> VolumeClaimTemplate = Some (PersistentVolumeClaimSpec ''1Gi'') \<rparr>"])
     (simp_all add: example_peer_def example_spec_def)

lemma example_peer_workload: "\<exists>workload. defineReplicaSet d example_peer = Returns workload"
  by (rule defineReplicaSet_returns)
     (simp add: lacksStaticBootstrap_def example_peer_def example_spec_def)

lemma deleted_peer_claim: "\<exists>claim. pvcForPeer d deleted_peer = Returns claim"
  by (rule pvcForPeer_returns [of _ "\<lparr> VolumeClaimTemplate = Some (PersistentVolumeClaimSpec ''1Gi'') \<rparr>"])
     (simp_all add: deleted_peer_def example_peer_def example_spec_def)

lemma deleted_peer_workload: "\<exists>workload. defineReplicaSet d deleted_peer = Returns workload"
  by (rule defineReplicaSet_returns)
     (simp add: lacksStaticBootstrap_def deleted_peer_def example_peer_def example_spec_def)

lemma keyOfPeer_examples:
  "keyOfPeer example_peer = example_key" "keyOfPeer deleted_peer = example_key"
  by (simp_all add: keyOfPeer_def example_key_def deleted_peer_def example_peer_def
        example_meta_def)

lemma deleted_peer_marked:
  "\<not> IsZero (DeletionTimestamp (PeerMeta deleted_peer))" "hasPvcDeletionFinalizer deleted_peer"
  by (simp_all add: deleted_peer_def IsZero_def hasPvcDeletionFinalizer_def)

lemma claims_marked:
  "IsZero (DeletionTimestamp (PvcMeta example_claim))"
  "\<not> IsZero (DeletionTimestamp (PvcMeta deleting_claim))"
  by (simp_all add: deleting_claim_def example_claim_def example_meta_def IsZero_def)

section \<open>The cleanup action\<close>

subsection \<open>The removal of a finalizer\<close>

lemma rangeLoop_none:
  "i + k \<le> length a \<Longrightarrow> f \<notin> set (drop i a) \<Longrightarrow> rangeLoop f k i a l = Returns (take l a)"
proof (induction k arbitrary: i)
  case 0
  then show ?case by simp
next
  case (Suc k)
  then have i: "i < length a" by simp
  then have "drop i a = a ! i # drop (Suc i) a"
    by (simp add: Cons_nth_drop_Suc)
  with Suc.prems(2) have "a ! i \<noteq> f" "f \<notin> set (drop (Suc i) a)"
    by auto
  with Suc.IH [of "Suc i"] Suc.prems(1) show ?case by simp
qed

lemma rangeLoop_once:
  "i + k = length a \<Longrightarrow> count_list (drop i a) f \<le> 1 \<Longrightarrow>
   rangeLoop f k i a (length a) = Returns (take i a @ removeAll f (drop i a))"
proof (induction k arbitrary: i)
  case 0
  then show ?case by simp
next
  case (Suc k)
  then have i: "i < length a" by simp
  then have split: "drop i a = a ! i # drop (Suc i) a"
    by (simp add: Cons_nth_drop_Suc)
  show ?case
  proof (cases "a ! i = f")
    case False
    with Suc.prems(2) split have "count_list (drop (Suc i) a) f \<le> 1" by simp
    with Suc.IH [of "Suc i"] Suc.prems(1)
    have "rangeLoop f k (Suc i) a (length a) =
            Returns (take (Suc i) a @ removeAll f (drop (Suc i) a))"
      by simp
    with False i show ?thesis
      by (simp add: split take_Suc_conv_app_nth)
  next
    case True
    with Suc.prems(2) split have "count_list (drop (Suc i) a) f = 0" by simp
    then have rest: "f \<notin> set (drop (Suc i) a)"
      by (simp add: count_list_0_iff)
    let ?a = "take i a @ drop (i + 1) (take (length a) a) @ drop (length a - 1) a"
    have len: "length ?a = length a" using i by simp
    have tail: "f \<notin> set (drop (Suc i) ?a)"
    proof (cases "Suc i = length a")
      case True
      then show ?thesis by simp
    next
      case False
      with i have "Suc i \<le> length a - 1" by simp
      then have "set (drop (length a - 1) a) \<subseteq> set (drop (Suc i) a)"
        by (simp add: set_drop_subset_set_drop)
      moreover have "drop (Suc i) ?a = drop 1 (drop (Suc i) a @ drop (length a - 1) a)"
        using i by simp
      then have "set (drop (Suc i) ?a) \<subseteq>
                   set (drop (Suc i) a) \<union> set (drop (length a - 1) a)"
        using set_drop_subset [of 1 "drop (Suc i) a @ drop (length a - 1) a"] by simp
      ultimately show ?thesis using rest by blast
    qed
    have "rangeLoop f k (Suc i) ?a (length a - 1) = Returns (take (length a - 1) ?a)"
      by (rule rangeLoop_none) (use Suc.prems(1) len tail in simp_all)
    moreover have "take (length a - 1) ?a = take i a @ drop (Suc i) a"
      using i by simp
    ultimately show ?thesis
      using True i rest by (simp add: split)
  qed
qed

lemma RemoveFinalizer_once:
  "count_list (Finalizers (PeerMeta p)) f \<le> 1 \<Longrightarrow>
   RemoveFinalizer p f = Returns (withoutFinalizer p f)"
  using rangeLoop_once [of 0 "length (Finalizers (PeerMeta p))" "Finalizers (PeerMeta p)" f]
  by (simp add: RemoveFinalizer_def withoutFinalizer_def)


text \<open>
  A finalizer that the list holds twice: between two others a copy stays, and on its
  own the loop panics.
\<close>

lemma rangeLoop_keeps_a_copy:
  "rangeLoop ''F'' 4 0 [''a'', ''F'', ''F'', ''b''] 4 = Returns [''a'', ''F'', ''b'']"
  by (simp add: numeral_eq_Suc)

lemma rangeLoop_panics:
  "rangeLoop ''F'' 2 0 [''F'', ''F''] 2 = Panic"
  by (simp add: numeral_eq_Suc)

lemma deleted_peer_once:
  "count_list (Finalizers (PeerMeta deleted_peer)) (PVCCleanupFinalizer example_deps) \<le> 1"
  by (simp add: deleted_peer_def example_deps_def)

lemma deleted_peer_finalized:
  "withoutFinalizer deleted_peer pvcCleanupFinalizer = finalized_peer"
  by (simp add: withoutFinalizer_def deleted_peer_def finalized_peer_def)

lemma example_finalizer: "PVCCleanupFinalizer example_deps = pvcCleanupFinalizer"
  by (simp add: example_deps_def)

subsection \<open>The paths of \<^verbatim>\<open>Execute\<close>\<close>


lemma Execute_absent:
  assumes "pvcForPeer d p = Returns expected"
    and "GetPVC client (keyOfPeer p) = Inl NotFound"
    and "RemoveFinalizer p (PVCCleanupFinalizer d) = Returns updated"
  shows "Execute_PVCDeleter d client p =
     (Returns (case PatchPeer client updated p of
                 None \<Rightarrow> None
               | Some err \<Rightarrow>
                   Some (Errorf ''failed to remove PVC cleanup finalizer: '' (ApiErr err))),
      [CallGetPVC (keyOfPeer p), CallPatchPeer updated p])"
  using assms pvcForPeer_key [OF assms(1)]
  by (simp add: Execute_PVCDeleter_def Let_def IsNotFound_def split: option.splits)

lemma Execute_present:
  assumes "pvcForPeer d p = Returns expected"
    and "GetPVC client (keyOfPeer p) = Inr actual"
    and "IsZero (DeletionTimestamp (PvcMeta actual))"
  shows "Execute_PVCDeleter d client p =
     (Returns (case DeletePVC client expected of
                 None \<Rightarrow> None
               | Some err \<Rightarrow> Some (Errorf ''failed to delete PVC for peer: '' (ApiErr err))),
      [CallGetPVC (keyOfPeer p), CallDeletePVC expected])"
  using assms pvcForPeer_key [OF assms(1)]
  by (simp add: Execute_PVCDeleter_def Let_def split: option.splits)


lemma Execute_panic:
  "pvcForPeer d p = Panic \<Longrightarrow> Execute_PVCDeleter d client p = (Panic, [])"
  by (simp add: Execute_PVCDeleter_def)





text \<open>
  C2. Whenever the cleanup action reads the claim as present with a zero deletion
  timestamp, it makes no patch of the peer, so the cleanup finalizer stays: the action
  reads the claim, asks for its deletion, and returns nil or the error of the deletion.
\<close>

theorem Execute_keeps_finalizer_while_claim_live:
  assumes "GetPVC client (keyOfPeer p) = Inr actual"
    and "IsZero (DeletionTimestamp (PvcMeta actual))"
  shows "\<not> list_ex isPatch (snd (Execute_PVCDeleter d client p))
       \<and> (\<forall>expected. pvcForPeer d p = Returns expected \<longrightarrow>
            Execute_PVCDeleter d client p =
              (Returns (case DeletePVC client expected of
                          None \<Rightarrow> None
                        | Some err \<Rightarrow>
                            Some (Errorf ''failed to delete PVC for peer: '' (ApiErr err))),
               [CallGetPVC (keyOfPeer p), CallDeletePVC expected]))"
proof (cases "pvcForPeer d p")
  case Panic
  then show ?thesis by (simp add: Execute_panic)
next
  case (Returns expected)
  from Execute_present [OF Returns assms] Returns show ?thesis by simp
qed

text \<open>
  The cleanup of the peer \<open>one\<close> while its claim is present and not marked for deletion:
  the claim is read and deleted, the peer is not patched.
\<close>

theorem Execute_keeps_finalizer_while_claim_live_witness:
  "IsZero (DeletionTimestamp (PvcMeta example_claim)) \<and>
   (\<exists>expected. pvcForPeer example_deps deleted_peer = Returns expected \<and>
      Execute_PVCDeleter example_deps
          (client_of (Inr deleted_peer) (Inr example_claim) (Inl NotFound)) deleted_peer =
        (Returns None, [CallGetPVC example_key, CallDeletePVC expected])) \<and>
   \<not> list_ex isPatch
       (snd (Execute_PVCDeleter example_deps
               (client_of (Inr deleted_peer) (Inr example_claim) (Inl NotFound)) deleted_peer))"
proof -
  obtain expected where expected: "pvcForPeer example_deps deleted_peer = Returns expected"
    using deleted_peer_claim by blast
  let ?c = "client_of (Inr deleted_peer) (Inr example_claim) (Inl NotFound)"
  have got: "GetPVC ?c (keyOfPeer deleted_peer) = Inr example_claim"
    by (simp add: client_of_def)
  note live = Execute_keeps_finalizer_while_claim_live [OF got claims_marked(1), of example_deps]
  from live expected
  have "Execute_PVCDeleter example_deps ?c deleted_peer =
          (Returns (case DeletePVC ?c expected of
                      None \<Rightarrow> None
                    | Some err \<Rightarrow> Some (Errorf ''failed to delete PVC for peer: '' (ApiErr err))),
           [CallGetPVC (keyOfPeer deleted_peer), CallDeletePVC expected])"
    by blast
  then have "Execute_PVCDeleter example_deps ?c deleted_peer =
          (Returns None, [CallGetPVC example_key, CallDeletePVC expected])"
    by (simp add: keyOfPeer_examples client_of_def)
  with live expected claims_marked(1) show ?thesis by blast
qed

section \<open>State collection\<close>

lemma IgnoreNotFound_hard:
  "IgnoreNotFound (errOf r) =
     (case r of Inl err \<Rightarrow> if err = NotFound then None else Some err | Inr obj \<Rightarrow> None)"
  by (simp add: IgnoreNotFound_def errOf_def IsNotFound_def split: sum.splits)

lemma hardFailure_cases:
  "hardFailure r \<Longrightarrow> \<exists>e. r = Inl e \<and> e \<noteq> NotFound"
  by (auto simp add: hardFailure_def IsNotFound_def split: sum.splits)

lemma GetState_peer_read_fails:
  assumes "GetPeer client (ReqNamespacedName req) = Inl e" and "e \<noteq> NotFound"
  shows "GetState d client req = (Returns (Inl e), [CallGetPeer (ReqNamespacedName req)])"
  using assms by (simp add: GetState_def Let_def IgnoreNotFound_hard)

lemma GetState_claim_read_fails:
  assumes "\<not> hardFailure (GetPeer client (ReqNamespacedName req))"
    and "GetPVC client (ReqNamespacedName req) = Inl e" and "e \<noteq> NotFound"
  shows "GetState d client req =
           (Returns (Inl e),
            [CallGetPeer (ReqNamespacedName req), CallGetPVC (ReqNamespacedName req)])"
  using assms
  by (simp add: GetState_def Let_def IgnoreNotFound_hard hardFailure_def IsNotFound_def
        split: sum.splits)

lemma GetState_workload_read_fails:
  assumes "\<not> hardFailure (GetPeer client (ReqNamespacedName req))"
    and "\<not> hardFailure (GetPVC client (ReqNamespacedName req))"
    and "GetReplicaSet client (ReqNamespacedName req) = Inl e" and "e \<noteq> NotFound"
  shows "GetState d client req = (Returns (Inl e), reads req)"
  using assms
  by (simp add: GetState_def Let_def IgnoreNotFound_hard hardFailure_def IsNotFound_def reads_def
        split: sum.splits)

lemma GetState_reads_succeed:
  assumes "\<not> hardFailure (GetPeer client (ReqNamespacedName req))"
    and "\<not> hardFailure (GetPVC client (ReqNamespacedName req))"
    and "\<not> hardFailure (GetReplicaSet client (ReqNamespacedName req))"
  shows "GetState d client req =
     (case present (GetPeer client (ReqNamespacedName req)) of
        None \<Rightarrow>
          (Returns (Inr \<lparr> peer = None,
                          pvc = present (GetPVC client (ReqNamespacedName req)),
                          desiredPVC = None,
                          replicaSet = present (GetReplicaSet client (ReqNamespacedName req)),
                          desiredReplicaSet = None \<rparr>), reads req)
      | Some p \<Rightarrow>
          (case pvcForPeer d (Default d p) of
             Panic \<Rightarrow> (Panic, reads req)
           | Returns claim \<Rightarrow>
               (case defineReplicaSet d (Default d p) of
                  Panic \<Rightarrow> (Panic, reads req)
                | Returns workload \<Rightarrow>
                    (Returns (Inr \<lparr> peer = Some (Default d p),
                                    pvc = present (GetPVC client (ReqNamespacedName req)),
                                    desiredPVC = Some claim,
                                    replicaSet =
                                      present (GetReplicaSet client (ReqNamespacedName req)),
                                    desiredReplicaSet = Some workload \<rparr>), reads req))))"
  using assms
  by (simp add: GetState_def Let_def IgnoreNotFound_hard hardFailure_def IsNotFound_def reads_def
        present_def split: sum.splits outcome.splits)

lemma GetState_returned_reads:
  assumes returned: "GetState d client req = (Returns (Inr st), calls)"
  shows "\<not> hardFailure (GetPeer client (ReqNamespacedName req)) \<and>
         \<not> hardFailure (GetPVC client (ReqNamespacedName req)) \<and>
         \<not> hardFailure (GetReplicaSet client (ReqNamespacedName req))"
proof -
  have peer_ok: "\<not> hardFailure (GetPeer client (ReqNamespacedName req))"
  proof
    assume "hardFailure (GetPeer client (ReqNamespacedName req))"
    then obtain e where "GetPeer client (ReqNamespacedName req) = Inl e" "e \<noteq> NotFound"
      using hardFailure_cases by blast
    from GetState_peer_read_fails [OF this] returned show False by simp
  qed
  have claim_ok: "\<not> hardFailure (GetPVC client (ReqNamespacedName req))"
  proof
    assume "hardFailure (GetPVC client (ReqNamespacedName req))"
    then obtain e where "GetPVC client (ReqNamespacedName req) = Inl e" "e \<noteq> NotFound"
      using hardFailure_cases by blast
    from GetState_claim_read_fails [OF peer_ok this] returned show False by simp
  qed
  have "\<not> hardFailure (GetReplicaSet client (ReqNamespacedName req))"
  proof
    assume "hardFailure (GetReplicaSet client (ReqNamespacedName req))"
    then obtain e where "GetReplicaSet client (ReqNamespacedName req) = Inl e" "e \<noteq> NotFound"
      using hardFailure_cases by blast
    from GetState_workload_read_fails [OF peer_ok claim_ok this] returned show False by simp
  qed
  with peer_ok claim_ok show ?thesis by simp
qed

lemma GetState_snapshot:
  assumes returned: "GetState d client req = (Returns (Inr st), calls)"
  shows "calls = reads req \<and>
      peer st = map_option (Default d) (present (GetPeer client (ReqNamespacedName req))) \<and>
      pvc st = present (GetPVC client (ReqNamespacedName req)) \<and>
      replicaSet st = present (GetReplicaSet client (ReqNamespacedName req)) \<and>
      (desiredPVC st \<noteq> None \<longleftrightarrow> present (GetPeer client (ReqNamespacedName req)) \<noteq> None) \<and>
      (desiredReplicaSet st \<noteq> None \<longleftrightarrow>
         present (GetPeer client (ReqNamespacedName req)) \<noteq> None)"
proof -
  note ok = GetState_returned_reads [OF returned]
  from returned show ?thesis
    unfolding GetState_reads_succeed [OF ok [THEN conjunct1] ok [THEN conjunct2, THEN conjunct1]
        ok [THEN conjunct2, THEN conjunct2]]
    by (auto split: option.splits outcome.splits)
qed

lemma GetState_desired:
  assumes returned: "GetState d client req = (Returns (Inr st), calls)"
    and "peer st = Some q"
  shows "\<exists>claim workload. pvcForPeer d q = Returns claim \<and> desiredPVC st = Some claim \<and>
           defineReplicaSet d q = Returns workload \<and> desiredReplicaSet st = Some workload"
proof -
  note ok = GetState_returned_reads [OF returned]
  from returned assms(2) show ?thesis
    unfolding GetState_reads_succeed [OF ok [THEN conjunct1] ok [THEN conjunct2, THEN conjunct1]
        ok [THEN conjunct2, THEN conjunct2]]
    by (auto split: option.splits outcome.splits)
qed

lemma GetState_calls_prefix:
  "\<exists>n. snd (GetState d client req) = take n (reads req)"
proof (cases "hardFailure (GetPeer client (ReqNamespacedName req))")
  case True
  then obtain e where "GetPeer client (ReqNamespacedName req) = Inl e" "e \<noteq> NotFound"
    using hardFailure_cases by blast
  then have "snd (GetState d client req) = take 1 (reads req)"
    by (simp add: GetState_peer_read_fails reads_def)
  then show ?thesis by blast
next
  case peer_ok: False
  show ?thesis
  proof (cases "hardFailure (GetPVC client (ReqNamespacedName req))")
    case True
    then obtain e where "GetPVC client (ReqNamespacedName req) = Inl e" "e \<noteq> NotFound"
      using hardFailure_cases by blast
    then have "snd (GetState d client req) = take 2 (reads req)"
      by (simp add: GetState_claim_read_fails [OF peer_ok] reads_def)
    then show ?thesis by blast
  next
    case claim_ok: False
    show ?thesis
    proof (cases "hardFailure (GetReplicaSet client (ReqNamespacedName req))")
      case True
      then obtain e where "GetReplicaSet client (ReqNamespacedName req) = Inl e" "e \<noteq> NotFound"
        using hardFailure_cases by blast
      then have "snd (GetState d client req) = take 3 (reads req)"
        by (simp add: GetState_workload_read_fails [OF peer_ok claim_ok] reads_def)
      then show ?thesis by blast
    next
      case False
      have "snd (GetState d client req) = take 3 (reads req)"
        by (simp add: GetState_reads_succeed [OF peer_ok claim_ok False] reads_def
              split: option.splits outcome.splits)
      then show ?thesis by blast
    qed
  qed
qed

lemma GetState_no_write: "\<not> list_ex isWrite (snd (GetState d client req))"
proof -
  obtain n where "snd (GetState d client req) = take n (reads req)"
    using GetState_calls_prefix by blast
  moreover have "\<not> list_ex isWrite (take n (reads req))"
    by (auto simp add: list_ex_iff reads_def dest!: in_set_takeD)
  ultimately show ?thesis by simp
qed

lemma GetState_new_peer:
  "\<exists>st. GetState example_deps (client_of (Inr example_peer) (Inl NotFound) (Inl NotFound))
           example_request = (Returns (Inr st), reads example_request) \<and>
        peer st = Some example_peer \<and> pvc st = None \<and> replicaSet st = None"
proof -
  let ?c = "client_of (Inr example_peer) (Inl NotFound) (Inl NotFound)"
  obtain claim where claim: "pvcForPeer example_deps example_peer = Returns claim"
    using example_peer_claim by blast
  obtain workload where workload: "defineReplicaSet example_deps example_peer = Returns workload"
    using example_peer_workload by blast
  have default: "Default example_deps example_peer = example_peer"
    by (simp add: example_deps_def)
  have "GetState example_deps ?c example_request =
     (Returns (Inr \<lparr> peer = Some example_peer, pvc = None, desiredPVC = Some claim,
                     replicaSet = None, desiredReplicaSet = Some workload \<rparr>),
      reads example_request)"
    by (subst GetState_reads_succeed)
       (simp_all add: client_of_def hardFailure_def IsNotFound_def present_def default claim
          workload)
  then show ?thesis by simp
qed

text \<open>
  C4. State collection reads the peer, the claim and the workload, in this order. A read
  that fails with an error other than not-found ends the collection at that read with
  that error and no snapshot. When no read fails so, all three reads are made, a
  not-found read is recorded as absent, and the collection returns a snapshot unless the
  builder faults on the peer; in every snapshot returned, the desired claim and the
  desired workload are present exactly when the peer read returned the peer.
\<close>

theorem GetState_collects:
  "(GetPeer client (ReqNamespacedName req) = Inl e \<and> e \<noteq> NotFound \<longrightarrow>
      GetState d client req = (Returns (Inl e), [CallGetPeer (ReqNamespacedName req)]))
 \<and> (\<not> hardFailure (GetPeer client (ReqNamespacedName req)) \<and>
    GetPVC client (ReqNamespacedName req) = Inl e \<and> e \<noteq> NotFound \<longrightarrow>
      GetState d client req =
        (Returns (Inl e),
         [CallGetPeer (ReqNamespacedName req), CallGetPVC (ReqNamespacedName req)]))
 \<and> (\<not> hardFailure (GetPeer client (ReqNamespacedName req)) \<and>
    \<not> hardFailure (GetPVC client (ReqNamespacedName req)) \<and>
    GetReplicaSet client (ReqNamespacedName req) = Inl e \<and> e \<noteq> NotFound \<longrightarrow>
      GetState d client req = (Returns (Inl e), reads req))
 \<and> (\<not> hardFailure (GetPeer client (ReqNamespacedName req)) \<and>
    \<not> hardFailure (GetPVC client (ReqNamespacedName req)) \<and>
    \<not> hardFailure (GetReplicaSet client (ReqNamespacedName req)) \<longrightarrow>
      GetState d client req =
        (case present (GetPeer client (ReqNamespacedName req)) of
           None \<Rightarrow>
             (Returns (Inr \<lparr> peer = None,
                             pvc = present (GetPVC client (ReqNamespacedName req)),
                             desiredPVC = None,
                             replicaSet = present (GetReplicaSet client (ReqNamespacedName req)),
                             desiredReplicaSet = None \<rparr>), reads req)
         | Some p \<Rightarrow>
             (case pvcForPeer d (Default d p) of
                Panic \<Rightarrow> (Panic, reads req)
              | Returns claim \<Rightarrow>
                  (case defineReplicaSet d (Default d p) of
                     Panic \<Rightarrow> (Panic, reads req)
                   | Returns workload \<Rightarrow>
                       (Returns (Inr \<lparr> peer = Some (Default d p),
                                       pvc = present (GetPVC client (ReqNamespacedName req)),
                                       desiredPVC = Some claim,
                                       replicaSet =
                                         present (GetReplicaSet client (ReqNamespacedName req)),
                                       desiredReplicaSet = Some workload \<rparr>), reads req)))))
 \<and> (GetState d client req = (Returns (Inr st), calls) \<longrightarrow>
      calls = reads req \<and>
      peer st = map_option (Default d) (present (GetPeer client (ReqNamespacedName req))) \<and>
      pvc st = present (GetPVC client (ReqNamespacedName req)) \<and>
      replicaSet st = present (GetReplicaSet client (ReqNamespacedName req)) \<and>
      (desiredPVC st \<noteq> None \<longleftrightarrow> present (GetPeer client (ReqNamespacedName req)) \<noteq> None) \<and>
      (desiredReplicaSet st \<noteq> None \<longleftrightarrow>
         present (GetPeer client (ReqNamespacedName req)) \<noteq> None))"
  using GetState_peer_read_fails [of client req e d]
    GetState_claim_read_fails [of client req e d]
    GetState_workload_read_fails [of client req e d]
    GetState_reads_succeed [of client req d]
    GetState_snapshot [of d client req st calls]
  by blast

text \<open>
  Three collections for the peer \<open>one\<close>: the read of the claim times out; nothing is
  in the store; the peer is there and the claim and the workload are not.
\<close>

theorem GetState_collects_witness:
  "GetState example_deps
       (client_of (Inr example_peer) (Inl (ApiFailure ''timeout'')) (Inl NotFound))
       example_request =
     (Returns (Inl (ApiFailure ''timeout'')), [CallGetPeer example_key, CallGetPVC example_key]) \<and>
   GetState example_deps (client_of (Inl NotFound) (Inl NotFound) (Inl NotFound))
       example_request =
     (Returns (Inr \<lparr> peer = None, pvc = None, desiredPVC = None, replicaSet = None,
                     desiredReplicaSet = None \<rparr>), reads example_request) \<and>
   (\<exists>st. GetState example_deps (client_of (Inr example_peer) (Inl NotFound) (Inl NotFound))
           example_request = (Returns (Inr st), reads example_request) \<and>
         peer st = Some example_peer \<and> pvc st = None \<and> replicaSet st = None \<and>
         desiredPVC st \<noteq> None \<and> desiredReplicaSet st \<noteq> None)"
proof -
  let ?t = "client_of (Inr example_peer) (Inl (ApiFailure ''timeout'')) (Inl NotFound)"
  have "\<not> hardFailure (GetPeer ?t (ReqNamespacedName example_request)) \<and>
        GetPVC ?t (ReqNamespacedName example_request) = Inl (ApiFailure ''timeout'') \<and>
        ApiFailure ''timeout'' \<noteq> NotFound"
    by (simp add: client_of_def hardFailure_def)
  with GetState_collects [of ?t example_request "ApiFailure ''timeout''" example_deps]
  have "GetState example_deps ?t example_request =
          (Returns (Inl (ApiFailure ''timeout'')),
           [CallGetPeer (ReqNamespacedName example_request),
            CallGetPVC (ReqNamespacedName example_request)])"
    by blast
  then have a: "GetState example_deps ?t example_request =
     (Returns (Inl (ApiFailure ''timeout'')), [CallGetPeer example_key, CallGetPVC example_key])"
    by (simp add: example_request_def)
  let ?e = "client_of (Inl NotFound) (Inl NotFound) (Inl NotFound)"
  have "\<not> hardFailure (GetPeer ?e (ReqNamespacedName example_request)) \<and>
        \<not> hardFailure (GetPVC ?e (ReqNamespacedName example_request)) \<and>
        \<not> hardFailure (GetReplicaSet ?e (ReqNamespacedName example_request))"
    by (simp add: client_of_def hardFailure_def IsNotFound_def)
  with GetState_collects [of ?e example_request _ example_deps]
  have "GetState example_deps ?e example_request =
        (case present (GetPeer ?e (ReqNamespacedName example_request)) of
           None \<Rightarrow>
             (Returns (Inr \<lparr> peer = None,
                             pvc = present (GetPVC ?e (ReqNamespacedName example_request)),
                             desiredPVC = None,
                             replicaSet =
                               present (GetReplicaSet ?e (ReqNamespacedName example_request)),
                             desiredReplicaSet = None \<rparr>), reads example_request)
         | Some p \<Rightarrow>
             (case pvcForPeer example_deps (Default example_deps p) of
                Panic \<Rightarrow> (Panic, reads example_request)
              | Returns claim \<Rightarrow>
                  (case defineReplicaSet example_deps (Default example_deps p) of
                     Panic \<Rightarrow> (Panic, reads example_request)
                   | Returns workload \<Rightarrow>
                       (Returns (Inr \<lparr> peer = Some (Default example_deps p),
                                       pvc = present (GetPVC ?e (ReqNamespacedName example_request)),
                                       desiredPVC = Some claim,
                                       replicaSet =
                                         present (GetReplicaSet ?e (ReqNamespacedName example_request)),
                                       desiredReplicaSet = Some workload \<rparr>),
                        reads example_request))))"
    by blast
  then have b: "GetState example_deps ?e example_request =
     (Returns (Inr \<lparr> peer = None, pvc = None, desiredPVC = None, replicaSet = None,
                     desiredReplicaSet = None \<rparr>), reads example_request)"
    by (simp add: client_of_def present_def)
  let ?n = "client_of (Inr example_peer) (Inl NotFound) (Inl NotFound)"
  obtain st where st: "GetState example_deps ?n example_request =
      (Returns (Inr st), reads example_request)"
    "peer st = Some example_peer" "pvc st = None" "replicaSet st = None"
    using GetState_new_peer by blast
  from GetState_collects [of ?n example_request _ example_deps st "reads example_request"] st(1)
  have "(desiredPVC st \<noteq> None \<longleftrightarrow>
           present (GetPeer ?n (ReqNamespacedName example_request)) \<noteq> None) \<and>
        (desiredReplicaSet st \<noteq> None \<longleftrightarrow>
           present (GetPeer ?n (ReqNamespacedName example_request)) \<noteq> None)"
    by blast
  then have "desiredPVC st \<noteq> None \<and> desiredReplicaSet st \<noteq> None"
    by (simp add: client_of_def present_def)
  with st a b show ?thesis by blast
qed

text \<open>
  C10. The desired workload of a snapshot is the result of \<^verbatim>\<open>defineReplicaSet\<close> on the
  snapshot's peer, computed inside the collection, which \<^verbatim>\<open>Reconcile\<close> finishes before
  it validates. When the peer is in the store and, after defaulting, has no static
  bootstrap list, the collection panics after its three reads, and so does the pass,
  whatever the validation would answer.
\<close>

theorem GetState_faults_without_static_bootstrap:
  "(GetState d client req = (Returns (Inr st), calls) \<and> peer st = Some q \<longrightarrow>
      (\<exists>workload. defineReplicaSet d q = Returns workload \<and>
                  desiredReplicaSet st = Some workload))
 \<and> (GetPeer client (ReqNamespacedName req) = Inr p \<and>
    \<not> hardFailure (GetPVC client (ReqNamespacedName req)) \<and>
    \<not> hardFailure (GetReplicaSet client (ReqNamespacedName req)) \<and>
    lacksStaticBootstrap (Default d p) \<longrightarrow>
      GetState d client req = (Panic, reads req) \<and>
      Reconcile d client Execute req = (Panic, reads req))"
proof -
  have "GetState d client req = (Panic, reads req) \<and>
        Reconcile d client Execute req = (Panic, reads req)"
    if got: "GetPeer client (ReqNamespacedName req) = Inr p"
      and claim_ok: "\<not> hardFailure (GetPVC client (ReqNamespacedName req))"
      and workload_ok: "\<not> hardFailure (GetReplicaSet client (ReqNamespacedName req))"
      and lacks: "lacksStaticBootstrap (Default d p)"
  proof -
    have "\<not> hardFailure (GetPeer client (ReqNamespacedName req))"
      by (simp add: got hardFailure_def)
    from GetState_reads_succeed [OF this claim_ok workload_ok]
    have "GetState d client req = (Panic, reads req)"
      by (simp add: got present_def lacksStaticBootstrap_Panic [OF lacks] split: outcome.splits)
    then show ?thesis
      by (simp add: Reconcile_def)
  qed
  then show ?thesis
    using GetState_desired [of d client req st calls q] by blast
qed

text \<open>
  A pass for the peer \<open>one\<close> declared without a bootstrap section, under a validation
  that rejects such a peer: the collection and the pass panic. And the collection of the
  complete peer \<open>one\<close> holds the workload that \<^verbatim>\<open>defineReplicaSet\<close> returns for it.
\<close>

theorem GetState_faults_without_static_bootstrap_witness:
  "lacksStaticBootstrap (Default strict_deps bare_peer) \<and>
   ValidateCreate strict_deps (Default strict_deps bare_peer) =
     Some ''spec.bootstrap.static: Required value'' \<and>
   GetState strict_deps (client_of (Inr bare_peer) (Inl NotFound) (Inl NotFound)) example_request =
     (Panic, reads example_request) \<and>
   Reconcile strict_deps (client_of (Inr bare_peer) (Inl NotFound) (Inl NotFound))
       (example_Execute strict_deps (client_of (Inr bare_peer) (Inl NotFound) (Inl NotFound)))
       example_request =
     (Panic, reads example_request) \<and>
   (\<exists>st workload.
      GetState example_deps (client_of (Inr example_peer) (Inl NotFound) (Inl NotFound))
        example_request = (Returns (Inr st), reads example_request) \<and>
      defineReplicaSet example_deps example_peer = Returns workload \<and>
      desiredReplicaSet st = Some workload)"
proof -
  let ?c = "client_of (Inr bare_peer) (Inl NotFound) (Inl NotFound)"
  have lacks: "lacksStaticBootstrap (Default strict_deps bare_peer)"
    by (simp add: strict_deps_def example_deps_def bare_peer_def lacksStaticBootstrap_def)
  then have rejected: "ValidateCreate strict_deps (Default strict_deps bare_peer) =
     Some ''spec.bootstrap.static: Required value''"
    by (simp add: strict_deps_def)
  have "GetPeer ?c (ReqNamespacedName example_request) = Inr bare_peer \<and>
    \<not> hardFailure (GetPVC ?c (ReqNamespacedName example_request)) \<and>
    \<not> hardFailure (GetReplicaSet ?c (ReqNamespacedName example_request))"
    by (simp add: client_of_def hardFailure_def IsNotFound_def)
  with lacks
    GetState_faults_without_static_bootstrap
      [of strict_deps ?c example_request _ _ _ bare_peer "example_Execute strict_deps ?c"]
  have panics: "GetState strict_deps ?c example_request = (Panic, reads example_request) \<and>
      Reconcile strict_deps ?c (example_Execute strict_deps ?c) example_request =
        (Panic, reads example_request)"
    by blast
  let ?n = "client_of (Inr example_peer) (Inl NotFound) (Inl NotFound)"
  obtain st where st: "GetState example_deps ?n example_request =
      (Returns (Inr st), reads example_request)" "peer st = Some example_peer"
    using GetState_new_peer by blast
  with GetState_faults_without_static_bootstrap
         [of example_deps ?n example_request st "reads example_request" example_peer]
  have "\<exists>workload. defineReplicaSet example_deps example_peer = Returns workload \<and>
          desiredReplicaSet st = Some workload"
    by blast
  with st(1) lacks rejected panics show ?thesis by blast
qed

section \<open>The reconciler\<close>

lemma Reconcile_invalid:
  assumes "GetState d client req = (Returns (Inr state), calls)"
    and "peer state = Some p" and "ValidateCreate d p = Some err"
  shows "Reconcile d client Execute req = (Returns None, calls)"
  using assms by (simp add: Reconcile_def)

lemma Reconcile_acts:
  assumes "GetState d client req = (Returns (Inr state), calls)"
    and "peer state = Some p" and "ValidateCreate d p = None"
    and "selectAction state p = Some action"
  shows "Reconcile d client Execute req = (fst (Execute action), calls @ snd (Execute action))"
  using assms by (simp add: Reconcile_def split: prod.splits)

lemma selectAction_cleanup:
  "\<not> IsZero (DeletionTimestamp (PeerMeta p)) \<Longrightarrow> hasPvcDeletionFinalizer p \<Longrightarrow>
   selectAction state p = Some (PeerPVCDeleter p)"
  by (simp add: selectAction_def)

lemma selectAction_deleted:
  "\<not> IsZero (DeletionTimestamp (PeerMeta p)) \<Longrightarrow>
   selectAction state p =
     Some (if hasPvcDeletionFinalizer p then PeerPVCDeleter p else NoopAction)"
  by (simp add: selectAction_def)

lemma GetState_rejected_peer:
  "\<exists>st. GetState rejecting_deps (client_of (Inr example_peer) (Inl NotFound) (Inl NotFound))
           example_request = (Returns (Inr st), reads example_request) \<and>
        peer st = Some example_peer"
proof -
  let ?c = "client_of (Inr example_peer) (Inl NotFound) (Inl NotFound)"
  obtain claim where claim: "pvcForPeer rejecting_deps example_peer = Returns claim"
    using example_peer_claim by blast
  obtain workload where workload: "defineReplicaSet rejecting_deps example_peer = Returns workload"
    using example_peer_workload by blast
  have default: "Default rejecting_deps example_peer = example_peer"
    by (simp add: rejecting_deps_def example_deps_def)
  have "GetState rejecting_deps ?c example_request =
     (Returns (Inr \<lparr> peer = Some example_peer, pvc = None, desiredPVC = Some claim,
                     replicaSet = None, desiredReplicaSet = Some workload \<rparr>),
      reads example_request)"
    by (subst GetState_reads_succeed)
       (simp_all add: client_of_def hardFailure_def IsNotFound_def present_def default claim
          workload)
  then show ?thesis by simp
qed

lemma GetState_deleted_peer:
  "\<exists>st. GetState example_deps (client_of (Inr deleted_peer) (Inl NotFound) (Inl NotFound))
           example_request = (Returns (Inr st), reads example_request) \<and>
        peer st = Some deleted_peer \<and> pvc st = None \<and> replicaSet st = None"
proof -
  let ?c = "client_of (Inr deleted_peer) (Inl NotFound) (Inl NotFound)"
  obtain claim where claim: "pvcForPeer example_deps deleted_peer = Returns claim"
    using deleted_peer_claim by blast
  obtain workload where workload: "defineReplicaSet example_deps deleted_peer = Returns workload"
    using deleted_peer_workload by blast
  have default: "Default example_deps deleted_peer = deleted_peer"
    by (simp add: example_deps_def)
  have "GetState example_deps ?c example_request =
     (Returns (Inr \<lparr> peer = Some deleted_peer, pvc = None, desiredPVC = Some claim,
                     replicaSet = None, desiredReplicaSet = Some workload \<rparr>),
      reads example_request)"
    by (subst GetState_reads_succeed)
       (simp_all add: client_of_def hardFailure_def IsNotFound_def present_def default claim
          workload)
  then show ?thesis by simp
qed

text \<open>
  C5. When the collection returns a snapshot whose peer fails \<^verbatim>\<open>ValidateCreate\<close>, the
  pass returns nil, whatever the execution of an action would do: no action is selected
  or executed, and the calls of the pass are the three reads of the collection, none of
  them a write.
\<close>

theorem Reconcile_invalid_peer:
  assumes "GetState d client req = (Returns (Inr state), calls)"
    and "peer state = Some p" and "ValidateCreate d p = Some err"
  shows "Reconcile d client Execute req = (Returns None, calls) \<and>
         calls = reads req \<and> \<not> list_ex isWrite calls"
proof -
  have "\<not> list_ex isWrite (snd (GetState d client req))"
    by (rule GetState_no_write)
  then have "\<not> list_ex isWrite calls"
    by (simp add: assms(1))
  with Reconcile_invalid [OF assms] GetState_snapshot [OF assms(1)] show ?thesis
    by simp
qed

text \<open>
  A pass for the peer \<open>one\<close>, with neither claim nor workload in the store, under a
  validation that rejects it: the pass returns nil after the three reads, and creates
  nothing.
\<close>

theorem Reconcile_invalid_peer_witness:
  "ValidateCreate rejecting_deps example_peer = Some ''invalid EtcdPeer'' \<and>
   Reconcile rejecting_deps (client_of (Inr example_peer) (Inl NotFound) (Inl NotFound))
       (example_Execute rejecting_deps (client_of (Inr example_peer) (Inl NotFound) (Inl NotFound)))
       example_request =
     (Returns None,
      [CallGetPeer example_key, CallGetPVC example_key, CallGetReplicaSet example_key])"
proof -
  let ?c = "client_of (Inr example_peer) (Inl NotFound) (Inl NotFound)"
  obtain st where st: "GetState rejecting_deps ?c example_request =
      (Returns (Inr st), reads example_request)" "peer st = Some example_peer"
    using GetState_rejected_peer by blast
  have rejected: "ValidateCreate rejecting_deps example_peer = Some ''invalid EtcdPeer''"
    by (simp add: rejecting_deps_def)
  from Reconcile_invalid_peer [OF st rejected, of "example_Execute rejecting_deps ?c"]
  have "Reconcile rejecting_deps ?c (example_Execute rejecting_deps ?c) example_request =
          (Returns None, reads example_request)"
    by blast
  then have "Reconcile rejecting_deps ?c (example_Execute rejecting_deps ?c) example_request =
     (Returns None,
      [CallGetPeer example_key, CallGetPVC example_key, CallGetReplicaSet example_key])"
    by (simp add: reads_def example_request_def)
  with rejected show ?thesis by blast
qed

text \<open>
  C3. For a peer that carries a deletion marker and the cleanup finalizer, the
  \<^verbatim>\<open>switch\<close> of \<^verbatim>\<open>Reconcile\<close> selects the cleanup action, whatever the snapshot holds
  for the claim and the workload; for a peer that carries a deletion marker it never
  selects a create; and the pass of a valid such peer is the execution of the cleanup
  action after the reads of the collection.
\<close>

theorem selectAction_deletion_first:
  "(\<not> IsZero (DeletionTimestamp (PeerMeta p)) \<and> hasPvcDeletionFinalizer p \<longrightarrow>
      selectAction state p = Some (PeerPVCDeleter p))
 \<and> (\<not> IsZero (DeletionTimestamp (PeerMeta p)) \<longrightarrow>
      selectAction state p \<noteq> Some (CreateRuntimeObject obj))
 \<and> (GetState d client req = (Returns (Inr state), calls) \<and> peer state = Some p \<and>
    ValidateCreate d p = None \<and>
    \<not> IsZero (DeletionTimestamp (PeerMeta p)) \<and> hasPvcDeletionFinalizer p \<longrightarrow>
      Reconcile d client Execute req =
        (fst (Execute (PeerPVCDeleter p)), calls @ snd (Execute (PeerPVCDeleter p))))"
  using selectAction_cleanup [of p state] selectAction_deleted [of p state]
    Reconcile_acts [of d client req state calls p "PeerPVCDeleter p" Execute]
  by auto

text \<open>
  The peer \<open>one\<close>, marked for deletion and carrying the finalizer, with neither claim
  nor workload in the store: the cleanup action is selected, and the pass reads the
  three objects, reads the claim again and patches the peer (the patched peer is the
  peer without the finalizer).
\<close>

theorem selectAction_deletion_first_witness:
  "selectAction \<lparr> peer = Some deleted_peer, pvc = None, desiredPVC = None, replicaSet = None,
                   desiredReplicaSet = None \<rparr> deleted_peer = Some (PeerPVCDeleter deleted_peer) \<and>
   Reconcile example_deps (client_of (Inr deleted_peer) (Inl NotFound) (Inl NotFound))
       (example_Execute example_deps (client_of (Inr deleted_peer) (Inl NotFound) (Inl NotFound)))
       example_request =
     (Returns None,
      [CallGetPeer example_key, CallGetPVC example_key, CallGetReplicaSet example_key,
       CallGetPVC example_key, CallPatchPeer finalized_peer deleted_peer])"
proof -
  let ?c = "client_of (Inr deleted_peer) (Inl NotFound) (Inl NotFound)"
  let ?s = "\<lparr> peer = Some deleted_peer, pvc = None, desiredPVC = None, replicaSet = None,
               desiredReplicaSet = None \<rparr>"
  from selectAction_deletion_first [of deleted_peer ?s] deleted_peer_marked
  have a: "selectAction ?s deleted_peer = Some (PeerPVCDeleter deleted_peer)"
    by blast
  obtain st where st: "GetState example_deps ?c example_request =
      (Returns (Inr st), reads example_request)" "peer st = Some deleted_peer"
    using GetState_deleted_peer by blast
  have valid: "ValidateCreate example_deps deleted_peer = None"
    by (simp add: example_deps_def)
  from selectAction_deletion_first
         [of deleted_peer st _ example_deps ?c example_request "reads example_request"
            "example_Execute example_deps ?c"]
       st valid deleted_peer_marked
  have pass: "Reconcile example_deps ?c (example_Execute example_deps ?c) example_request =
          (fst (example_Execute example_deps ?c (PeerPVCDeleter deleted_peer)),
           reads example_request @
             snd (example_Execute example_deps ?c (PeerPVCDeleter deleted_peer)))"
    by blast
  obtain expected where expected: "pvcForPeer example_deps deleted_peer = Returns expected"
    using deleted_peer_claim by blast
  have absent: "GetPVC ?c (keyOfPeer deleted_peer) = Inl NotFound"
    by (simp add: client_of_def)
  have removed: "RemoveFinalizer deleted_peer (PVCCleanupFinalizer example_deps) =
      Returns finalized_peer"
    using RemoveFinalizer_once [OF deleted_peer_once]
    by (simp add: example_finalizer deleted_peer_finalized)
  from Execute_absent [OF expected absent removed]
  have "example_Execute example_deps ?c (PeerPVCDeleter deleted_peer) =
          (Returns None,
           [CallGetPVC example_key, CallPatchPeer finalized_peer deleted_peer])"
    by (simp add: example_Execute_def keyOfPeer_examples client_of_def)
  with pass have "Reconcile example_deps ?c (example_Execute example_deps ?c) example_request =
     (Returns None,
      [CallGetPeer example_key, CallGetPVC example_key, CallGetReplicaSet example_key,
       CallGetPVC example_key, CallPatchPeer finalized_peer deleted_peer])"
    by (simp add: reads_def example_request_def)
  with a show ?thesis by blast
qed

end
